theory Spec2Isabelle
  imports Complex_Main "HOL-Library.Sublist"
begin

section \<open>JavaScript values\<close>

text \<open>
  The mock context of \<^verbatim>\<open>src/classes/CanvasRenderingContext2D.js\<close> is embedded as a
  state record and one function per public member.

  Numbers are IEEE 754 doubles: NaN, the two infinities, the negative zero, and the
  finite values, each the real number it denotes (\<open>Fin 0\<close> is the positive zero). The
  result of an addition or a multiplication is the exact result rounded to the nearest
  double, ties to even, and is an infinity when that is out of range.
\<close>

datatype num = NaN | PInf | NInf | NegZero | Fin real

text \<open>Rounding to the nearest integer, ties to the even one.\<close>

definition round_half_even :: "real \<Rightarrow> int" where
  "round_half_even y =
     (let f = \<lfloor>y\<rfloor>; d = y - of_int f
      in if d < 1 / 2 then f else if 1 / 2 < d then f + 1 else if even f then f else f + 1)"

text \<open>
  The doubles next to \<open>x \<noteq> 0\<close> are the multiples of \<open>2 ^ e\<close>, where \<open>e\<close> is 52 below the
  binary exponent of \<open>x\<close> and not below that of the subnormal numbers.
\<close>

definition double_exponent :: "real \<Rightarrow> int" where
  "double_exponent x = max (\<lfloor>log 2 \<bar>x\<bar>\<rfloor> - 52) (- 1074)"

definition round_double :: "real \<Rightarrow> num" where
  "round_double x =
     (if x = 0 then Fin 0
      else
        let e = double_exponent x;
            r = of_int (round_half_even (x / 2 powi e)) * 2 powi e
        in if 2 ^ 1024 \<le> \<bar>r\<bar> then (if 0 < x then PInf else NInf)
           else if r = 0 then (if 0 < x then Fin 0 else NegZero)
           else Fin r)"

fun is_zero :: "num \<Rightarrow> bool" where
  "is_zero (Fin a) = (a = 0)"
| "is_zero NegZero = True"
| "is_zero _ = False"

fun is_infinity :: "num \<Rightarrow> bool" where
  "is_infinity PInf = True"
| "is_infinity NInf = True"
| "is_infinity _ = False"

text \<open>The sign bit, and the real value of a finite number.\<close>

fun negative :: "num \<Rightarrow> bool" where
  "negative (Fin a) = (a < 0)"
| "negative NegZero = True"
| "negative NInf = True"
| "negative _ = False"

fun real_value :: "num \<Rightarrow> real" where
  "real_value (Fin a) = a"
| "real_value _ = 0"

text \<open>\<^verbatim>\<open>a === b\<close> on numbers: NaN equals nothing, the two zeros are equal.\<close>

definition num_eq :: "num \<Rightarrow> num \<Rightarrow> bool" where
  "num_eq a b \<longleftrightarrow> a \<noteq> NaN \<and> (a = b \<or> (is_zero a \<and> is_zero b))"

instantiation num :: "{plus, minus, uminus, times, ord}"
begin

fun plus_num :: "num \<Rightarrow> num \<Rightarrow> num" where
  "plus_num NaN _ = NaN"
| "plus_num _ NaN = NaN"
| "plus_num PInf NInf = NaN"
| "plus_num NInf PInf = NaN"
| "plus_num PInf _ = PInf"
| "plus_num _ PInf = PInf"
| "plus_num NInf _ = NInf"
| "plus_num _ NInf = NInf"
| "plus_num NegZero NegZero = NegZero"
| "plus_num NegZero (Fin b) = Fin b"
| "plus_num (Fin a) NegZero = Fin a"
| "plus_num (Fin a) (Fin b) = round_double (a + b)"

fun uminus_num :: "num \<Rightarrow> num" where
  "uminus_num (Fin a) = (if a = 0 then NegZero else Fin (- a))"
| "uminus_num NegZero = Fin 0"
| "uminus_num NaN = NaN"
| "uminus_num PInf = NInf"
| "uminus_num NInf = PInf"

definition minus_num :: "num \<Rightarrow> num \<Rightarrow> num" where
  "minus_num a b = a + (- b)"

definition times_num :: "num \<Rightarrow> num \<Rightarrow> num" where
  "times_num a b =
     (if a = NaN \<or> b = NaN then NaN
      else if (is_zero a \<and> is_infinity b) \<or> (is_infinity a \<and> is_zero b) then NaN
      else if is_infinity a \<or> is_infinity b then
        (if negative a \<noteq> negative b then NInf else PInf)
      else if is_zero a \<or> is_zero b then
        (if negative a \<noteq> negative b then NegZero else Fin 0)
      else round_double (real_value a * real_value b))"

fun less_num :: "num \<Rightarrow> num \<Rightarrow> bool" where
  "less_num NaN _ = False"
| "less_num _ NaN = False"
| "less_num PInf _ = False"
| "less_num _ NInf = False"
| "less_num NInf _ = True"
| "less_num _ PInf = True"
| "less_num NegZero NegZero = False"
| "less_num NegZero (Fin b) = (0 < b)"
| "less_num (Fin a) NegZero = (a < 0)"
| "less_num (Fin a) (Fin b) = (a < b)"

definition less_eq_num :: "num \<Rightarrow> num \<Rightarrow> bool" where
  "less_eq_num a b = (a < b \<or> num_eq a b)"

instance ..

end

text \<open>\<^verbatim>\<open>Number.isFinite\<close> on a number, and \<^verbatim>\<open>Math.abs\<close>.\<close>

fun is_finite :: "num \<Rightarrow> bool" where
  "is_finite (Fin a) = True"
| "is_finite NegZero = True"
| "is_finite _ = False"

fun math_abs :: "num \<Rightarrow> num" where
  "math_abs (Fin a) = Fin \<bar>a\<bar>"
| "math_abs NegZero = Fin 0"
| "math_abs NaN = NaN"
| "math_abs _ = PInf"


text \<open>
  The values that reach the context. Primitives are as in the language. \<open>JArray\<close> is an
  array that the context does not own (an argument, or a copy it made with
  \<^verbatim>\<open>slice()\<close>); \<open>JRef\<close> is a reference to an array that the context stores and shares
  with its caller (see \<open>arrays\<close> below). The host classes (\<^verbatim>\<open>Path2D\<close>, \<^verbatim>\<open>DOMMatrix\<close>,
  \<^verbatim>\<open>ImageData\<close>, \<^verbatim>\<open>ImageBitmap\<close>, the elements, gradients, patterns, text metrics) are
  tagged variants with the fields that the context reads. Symbols, BigInts and objects
  with a \<^verbatim>\<open>valueOf\<close> or a throwing \<^verbatim>\<open>toString\<close> of their own are outside the model.

  Modelled from the spec: \<^verbatim>\<open>createCanvasEvent\<close> (\<^verbatim>\<open>src/mock/createCanvasEvent.js\<close> is not
  among the sources) builds the record \<^verbatim>\<open>{ type, transform, props }\<close>, here \<open>JEvent\<close>;
  \<^verbatim>\<open>DOMMatrix\<close> exposes the six numeric fields \<^verbatim>\<open>a..f\<close>; \<^verbatim>\<open>TextMetrics\<close>,
  \<^verbatim>\<open>CanvasGradient\<close> and \<^verbatim>\<open>CanvasPattern\<close> are opaque handles, and their constructors
  do not raise. The constructor of \<^verbatim>\<open>ImageData\<close>, which does raise, is taken from
  outside (see \<open>new_ImageData\<close> below).
\<close>

datatype jsval =
    JUndefined
  | JNull
  | JBool bool
  | JNum num
  | JStr string
  | JArray "jsval list"
  | JTypedArray "jsval list"
  | JRef nat
  | JObject "(string \<times> jsval) list"
  | JEvent string "jsval list" "(string \<times> jsval) list"
  | JPath2D "jsval list"
  | JDOMMatrix num num num num num num
  | JImageData jsval jsval
  | JImageBitmap jsval jsval jsval
  | JHTMLImageElement jsval jsval
  | JHTMLVideoElement jsval jsval
  | JHTMLCanvasElement jsval jsval
  | JElement
  | JCanvasGradient
  | JCanvasPattern
  | JTextMetrics string

datatype error = TypeError string | RangeError string | DOMException string string

type_synonym outcome = "error + jsval"

text \<open>
  What the model takes from outside the source file: the string/number conversions of
  the language, the \<^verbatim>\<open>toString\<close> of objects (given the shared arrays, to follow
  references), the values of \<^verbatim>\<open>Math.cos\<close> and \<^verbatim>\<open>Math.sin\<close> away from zero (the language
  leaves them to the implementation), the two npm packages \<^verbatim>\<open>parse-color\<close> (its \<^verbatim>\<open>rgba\<close>
  and \<^verbatim>\<open>hex\<close> results) and \<^verbatim>\<open>cssfontparser\<close> (\<open>None\<close> when it, or the \<^verbatim>\<open>toString\<close> of its
  result, raises), and \<^verbatim>\<open>new ImageData(width, height)\<close> of the class
  \<^verbatim>\<open>src/classes/ImageData.js\<close>, which is not among the sources: the object built, or the
  exception raised. Every theorem below that names no particular choice holds for every
  choice of them.
\<close>

record extern =
  string_to_number :: "string \<Rightarrow> num"
  number_to_string :: "num \<Rightarrow> string"
  object_to_string :: "(nat \<Rightarrow> jsval list) \<Rightarrow> jsval \<Rightarrow> string"
  cos_approx :: "real \<Rightarrow> num"
  sin_approx :: "real \<Rightarrow> num"
  parseColor :: "string \<Rightarrow> jsval list option \<times> string option"
  cssfontparser :: "jsval \<Rightarrow> string option"
  new_ImageData :: "jsval \<Rightarrow> jsval \<Rightarrow> error + jsval"

text \<open>
  \<^verbatim>\<open>Math.cos\<close> and \<^verbatim>\<open>Math.sin\<close>: the language fixes their values at the zeros, at NaN and
  at the infinities.
\<close>

fun math_cos :: "extern \<Rightarrow> num \<Rightarrow> num" where
  "math_cos X (Fin a) = (if a = 0 then Fin 1 else cos_approx X a)"
| "math_cos X NegZero = Fin 1"
| "math_cos X _ = NaN"

fun math_sin :: "extern \<Rightarrow> num \<Rightarrow> num" where
  "math_sin X (Fin a) = (if a = 0 then Fin 0 else sin_approx X a)"
| "math_sin X NegZero = NegZero"
| "math_sin X _ = NaN"

subsection \<open>Coercions and operators of the language\<close>

fun is_primitive :: "jsval \<Rightarrow> bool" where
  "is_primitive JUndefined = True"
| "is_primitive JNull = True"
| "is_primitive (JBool b) = True"
| "is_primitive (JNum n) = True"
| "is_primitive (JStr s) = True"
| "is_primitive _ = False"

fun is_string :: "jsval \<Rightarrow> bool" where
  "is_string (JStr s) = True"
| "is_string _ = False"

text \<open>\<^verbatim>\<open>String(v)\<close>.\<close>

fun to_string :: "extern \<Rightarrow> (nat \<Rightarrow> jsval list) \<Rightarrow> jsval \<Rightarrow> string" where
  "to_string X h JUndefined = ''undefined''"
| "to_string X h JNull = ''null''"
| "to_string X h (JBool b) = (if b then ''true'' else ''false'')"
| "to_string X h (JNum n) = number_to_string X n"
| "to_string X h (JStr s) = s"
| "to_string X h v = object_to_string X h v"

text \<open>\<^verbatim>\<open>Number(v)\<close>: an object is converted through its string.\<close>

fun to_number :: "extern \<Rightarrow> (nat \<Rightarrow> jsval list) \<Rightarrow> jsval \<Rightarrow> num" where
  "to_number X h JUndefined = NaN"
| "to_number X h JNull = Fin 0"
| "to_number X h (JBool b) = (if b then Fin 1 else Fin 0)"
| "to_number X h (JNum n) = n"
| "to_number X h (JStr s) = string_to_number X s"
| "to_number X h v = string_to_number X (object_to_string X h v)"

text \<open>\<^verbatim>\<open>Boolean(v)\<close>.\<close>

fun truthy :: "jsval \<Rightarrow> bool" where
  "truthy JUndefined = False"
| "truthy JNull = False"
| "truthy (JBool b) = b"
| "truthy (JNum n) = (n \<noteq> NaN \<and> \<not> is_zero n)"
| "truthy (JStr s) = (s \<noteq> [])"
| "truthy _ = True"

text \<open>
  The binary \<^verbatim>\<open>+\<close>: both operands are made primitive; if either is then a string the
  result is the concatenation, otherwise the numeric sum.
\<close>

definition to_primitive :: "extern \<Rightarrow> (nat \<Rightarrow> jsval list) \<Rightarrow> jsval \<Rightarrow> jsval" where
  "to_primitive X h v = (if is_primitive v then v else JStr (object_to_string X h v))"

definition js_add :: "extern \<Rightarrow> (nat \<Rightarrow> jsval list) \<Rightarrow> jsval \<Rightarrow> jsval \<Rightarrow> jsval" where
  "js_add X h a b =
     (let pa = to_primitive X h a; pb = to_primitive X h b
      in if is_string pa \<or> is_string pb then JStr (to_string X h pa @ to_string X h pb)
         else JNum (to_number X h pa + to_number X h pb))"

text \<open>\<^verbatim>\<open>Number.isFinite(v)\<close>: false for everything that is not a number.\<close>

fun number_isFinite :: "jsval \<Rightarrow> bool" where
  "number_isFinite (JNum n) = is_finite n"
| "number_isFinite _ = False"

text \<open>Array reads and writes: a read out of range is \<^verbatim>\<open>undefined\<close>, a write extends.\<close>

definition js_get :: "jsval list \<Rightarrow> nat \<Rightarrow> jsval" where
  "js_get xs i = (if i < length xs then xs ! i else JUndefined)"

definition js_set :: "jsval list \<Rightarrow> nat \<Rightarrow> jsval \<Rightarrow> jsval list" where
  "js_set xs i v =
     (if i < length xs then xs[i := v]
      else xs @ replicate (i - length xs) JUndefined @ [v])"

text \<open>The \<open>i\<close>-th argument of a call: \<^verbatim>\<open>undefined\<close> when fewer were passed.\<close>

definition arg :: "jsval list \<Rightarrow> nat \<Rightarrow> jsval" where
  "arg as i = js_get as i"

text \<open>\<^verbatim>\<open>xs.join(sep)\<close>: \<^verbatim>\<open>undefined\<close> and \<^verbatim>\<open>null\<close> elements give the empty string.\<close>

fun js_join :: "extern \<Rightarrow> (nat \<Rightarrow> jsval list) \<Rightarrow> string \<Rightarrow> jsval list \<Rightarrow> string" where
  "js_join X h sep [] = []"
| "js_join X h sep [v] = (if v = JUndefined \<or> v = JNull then [] else to_string X h v)"
| "js_join X h sep (v # w # vs) =
     (if v = JUndefined \<or> v = JNull then [] else to_string X h v) @ sep @ js_join X h sep (w # vs)"

text \<open>
  A property of an options object. The host variants carry none of the names that
  \<^verbatim>\<open>addHitRegion\<close> reads.
\<close>

definition get_prop :: "jsval \<Rightarrow> string \<Rightarrow> jsval" where
  "get_prop v k =
     (case v of
        JObject kvs \<Rightarrow> (case map_of kvs k of Some x \<Rightarrow> x | None \<Rightarrow> JUndefined)
      | _ \<Rightarrow> JUndefined)"

text \<open>Decimal digits of \<^verbatim>\<open>arguments.length\<close> in a message.\<close>

fun show_nat :: "nat \<Rightarrow> string" where
  "show_nat n =
     (if n < 10 then [char_of (48 + n)]
      else show_nat (n div 10) @ [char_of (48 + n mod 10)])"

declare show_nat.simps [simp del]

definition quoted :: "string \<Rightarrow> string" where
  "quoted s = CHR 0x27 # s @ [CHR 0x27]"

definition constructor_name :: string where
  "constructor_name = ''CanvasRenderingContext2D''"

definition failed_to_execute :: "string \<Rightarrow> string \<Rightarrow> string" where
  "failed_to_execute name rest =
     ''Failed to execute '' @ quoted name @ '' on '' @ quoted constructor_name @ '': '' @ rest"

definition required_but_only :: "string \<Rightarrow> string \<Rightarrow> nat \<Rightarrow> string" where
  "required_but_only name required n =
     failed_to_execute name (required @ '' required, but only '' @ show_nat n @ '' present.'')"

definition not_a_fill_rule :: "string \<Rightarrow> string \<Rightarrow> string" where
  "not_a_fill_rule name fillRule =
     failed_to_execute name (''The provided value '' @ quoted fillRule
        @ '' is not a valid enum value of type CanvasFillRule.'')"

definition not_an_image :: "string \<Rightarrow> string" where
  "not_an_image name =
     failed_to_execute name (''The provided value is not of type ''
        @ quoted ''(CSSImageValue or HTMLImageElement or SVGImageElement or HTMLVideoElement or HTMLCanvasElement or ImageBitmap or OffscreenCanvas)'')"

section \<open>The context\<close>

text \<open>
  The six-element transform arrays are created once, with numbers, and only their
  indices 0 to 5 are assigned: \<open>Matrix a b c d e f\<close> is the array \<^verbatim>\<open>[a, b, c, d, e, f]\<close>.
\<close>

datatype matrix = Matrix num num num num num num

fun slice_matrix :: "matrix \<Rightarrow> jsval list" where
  "slice_matrix (Matrix a b c d e f) = [JNum a, JNum b, JNum c, JNum d, JNum e, JNum f]"

text \<open>
  The fields of the class, in its order. \<^verbatim>\<open>save()\<close> pushes the element of
  \<^verbatim>\<open>_transformStack\<close> itself, not a copy, and the transform operations assign into that
  array: the transform stack therefore holds references (\<open>Some r\<close>, or \<open>None\<close> for
  \<^verbatim>\<open>undefined\<close>) into the store \<open>matrices\<close>. \<^verbatim>\<open>getLineDash()\<close> returns the element of
  \<^verbatim>\<open>_lineDashStack\<close> itself: the dash stack holds references \<open>JRef a\<close> into the store
  \<open>arrays\<close>, which the caller can reach; \<open>fresh\<close> is the next unused address there.
\<close>

record ctx =
  drawCalls :: "jsval list"
  events :: "jsval list"
  path :: "jsval list"
  directionStack :: "jsval list"
  fillStyleStack :: "jsval list"
  filterStack :: "jsval list"
  fontStack :: "jsval list"
  globalAlphaStack :: "jsval list"
  globalCompositeOperationStack :: "jsval list"
  imageSmoothingEnabledStack :: "jsval list"
  imageSmoothingQualityStack :: "jsval list"
  lineCapStack :: "jsval list"
  lineDashOffsetStack :: "jsval list"
  lineDashStack :: "jsval list"
  lineJoinStack :: "jsval list"
  lineWidthStack :: "jsval list"
  miterLimitStack :: "jsval list"
  shadowBlurStack :: "jsval list"
  shadowColorStack :: "jsval list"
  shadowOffsetXStack :: "jsval list"
  shadowOffsetYStack :: "jsval list"
  stackIndex :: nat
  strokeStyleStack :: "jsval list"
  textAlignStack :: "jsval list"
  textBaselineStack :: "jsval list"
  transformStack :: "nat option list"
  canvas :: jsval
  matrices :: "nat \<Rightarrow> matrix"
  arrays :: "nat \<Rightarrow> jsval list"
  fresh :: nat

definition createCanvasEvent :: "string \<Rightarrow> jsval list \<Rightarrow> (string \<times> jsval) list \<Rightarrow> jsval" where
  "createCanvasEvent type transform props = JEvent type transform props"

text \<open>The field initialisers and the constructor.\<close>

definition new_context :: "jsval \<Rightarrow> ctx" where
  "new_context cv =
     \<lparr> drawCalls = [],
       events = [],
       path = [createCanvasEvent ''beginPath''
                 [JNum (Fin 1), JNum (Fin 0), JNum (Fin 0), JNum (Fin 1), JNum (Fin 0), JNum (Fin 0)] []],
       directionStack = [JStr ''inherit''],
       fillStyleStack = [JStr ''#000''],
       filterStack = [JStr ''none''],
       fontStack = [JStr ''10px sans-serif''],
       globalAlphaStack = [JNum (Fin 1)],
       globalCompositeOperationStack = [JStr ''source-over''],
       imageSmoothingEnabledStack = [JBool True],
       imageSmoothingQualityStack = [JStr ''low''],
       lineCapStack = [JStr ''butt''],
       lineDashOffsetStack = [JNum (Fin 0)],
       lineDashStack = [JRef 0],
       lineJoinStack = [JStr ''miter''],
       lineWidthStack = [JNum (Fin 1)],
       miterLimitStack = [JNum (Fin 10)],
       shadowBlurStack = [JNum (Fin 0)],
       shadowColorStack = [JStr ''rgba(0, 0, 0, 0)''],
       shadowOffsetXStack = [JNum (Fin 0)],
       shadowOffsetYStack = [JNum (Fin 0)],
       stackIndex = 0,
       strokeStyleStack = [JStr ''#000''],
       textAlignStack = [JStr ''start''],
       textBaselineStack = [JStr ''alphabetic''],
       transformStack = [Some 0],
       canvas = cv,
       matrices = (\<lambda>r. Matrix (Fin 1) (Fin 0) (Fin 0) (Fin 1) (Fin 0) (Fin 0)),
       arrays = (\<lambda>a. []),
       fresh = 1 \<rparr>"

text \<open>\<^verbatim>\<open>this._transformStack[this._stackIndex]\<close>: the reference, or \<open>None\<close> for \<^verbatim>\<open>undefined\<close>.\<close>

definition current_transform :: "ctx \<Rightarrow> nat option" where
  "current_transform c =
     (if stackIndex c < length (transformStack c) then transformStack c ! stackIndex c else None)"

definition undefined_read :: error where
  "undefined_read = TypeError ''Cannot read properties of undefined''"

text \<open>\<^verbatim>\<open>getTransformSlice(ctx)\<close>: raises when the element is \<^verbatim>\<open>undefined\<close>.\<close>

definition getTransformSlice :: "ctx \<Rightarrow> error + jsval list" where
  "getTransformSlice c =
     (case current_transform c of
        None \<Rightarrow> Inl undefined_read
      | Some r \<Rightarrow> Inr (slice_matrix (matrices c r)))"

text \<open>
  Sequencing: evaluate \<^verbatim>\<open>getTransformSlice(this)\<close> in state \<open>c\<close> and go on with the copy;
  an exception leaves the call in state \<open>c\<close>. Likewise for the accesses
  \<^verbatim>\<open>this._transformStack[this._stackIndex][i]\<close>.
\<close>

definition with_slice :: "ctx \<Rightarrow> (jsval list \<Rightarrow> outcome \<times> ctx) \<Rightarrow> outcome \<times> ctx" where
  "with_slice c k = (case getTransformSlice c of Inl e \<Rightarrow> (Inl e, c) | Inr t \<Rightarrow> k t)"

definition with_matrix :: "ctx \<Rightarrow> (nat \<Rightarrow> matrix \<Rightarrow> outcome \<times> ctx) \<Rightarrow> outcome \<times> ctx" where
  "with_matrix c k =
     (case current_transform c of
        None \<Rightarrow> (Inl undefined_read, c)
      | Some r \<Rightarrow> k r (matrices c r))"

definition set_matrix :: "nat \<Rightarrow> matrix \<Rightarrow> ctx \<Rightarrow> ctx" where
  "set_matrix r m c = c\<lparr>matrices := (matrices c)(r := m)\<rparr>"

text \<open>\<^verbatim>\<open>this._events.push(e)\<close>, \<^verbatim>\<open>this._drawCalls.push(e)\<close>, \<^verbatim>\<open>this._path.push(e)\<close>.\<close>

definition push_event :: "jsval \<Rightarrow> ctx \<Rightarrow> ctx" where
  "push_event e c = c\<lparr>events := events c @ [e]\<rparr>"

definition push_drawCall :: "jsval \<Rightarrow> ctx \<Rightarrow> ctx" where
  "push_drawCall e c = c\<lparr>drawCalls := drawCalls c @ [e]\<rparr>"

definition push_path :: "jsval \<Rightarrow> ctx \<Rightarrow> ctx" where
  "push_path e c = c\<lparr>path := path c @ [e]\<rparr>"

definition ok :: "ctx \<Rightarrow> outcome \<times> ctx" where
  "ok c = (Inr JUndefined, c)"

definition returns :: "jsval \<Rightarrow> ctx \<Rightarrow> outcome \<times> ctx" where
  "returns v c = (Inr v, c)"

definition throw :: "error \<Rightarrow> ctx \<Rightarrow> outcome \<times> ctx" where
  "throw e c = (Inl e, c)"

text \<open>\<^verbatim>\<open>instanceof\<close> tests and the fields read from the host objects.\<close>

fun instanceof_Path2D :: "jsval \<Rightarrow> bool" where
  "instanceof_Path2D (JPath2D ps) = True"
| "instanceof_Path2D _ = False"

fun instanceof_ImageBitmap :: "jsval \<Rightarrow> bool" where
  "instanceof_ImageBitmap (JImageBitmap w h cl) = True"
| "instanceof_ImageBitmap _ = False"

fun instanceof_HTMLImageElement :: "jsval \<Rightarrow> bool" where
  "instanceof_HTMLImageElement (JHTMLImageElement w h) = True"
| "instanceof_HTMLImageElement _ = False"

fun instanceof_HTMLVideoElement :: "jsval \<Rightarrow> bool" where
  "instanceof_HTMLVideoElement (JHTMLVideoElement w h) = True"
| "instanceof_HTMLVideoElement _ = False"

fun instanceof_HTMLCanvasElement :: "jsval \<Rightarrow> bool" where
  "instanceof_HTMLCanvasElement (JHTMLCanvasElement w h) = True"
| "instanceof_HTMLCanvasElement _ = False"

fun instanceof_Element :: "jsval \<Rightarrow> bool" where
  "instanceof_Element (JHTMLImageElement w h) = True"
| "instanceof_Element (JHTMLVideoElement w h) = True"
| "instanceof_Element (JHTMLCanvasElement w h) = True"
| "instanceof_Element JElement = True"
| "instanceof_Element _ = False"

fun field_width :: "jsval \<Rightarrow> jsval" where
  "field_width (JObject kvs) = get_prop (JObject kvs) ''width''"
| "field_width (JImageData w h) = w"
| "field_width (JImageBitmap w h cl) = w"
| "field_width (JHTMLImageElement w h) = w"
| "field_width (JHTMLVideoElement w h) = w"
| "field_width (JHTMLCanvasElement w h) = w"
| "field_width _ = JUndefined"

fun field_height :: "jsval \<Rightarrow> jsval" where
  "field_height (JObject kvs) = get_prop (JObject kvs) ''height''"
| "field_height (JImageData w h) = h"
| "field_height (JImageBitmap w h cl) = h"
| "field_height (JHTMLImageElement w h) = h"
| "field_height (JHTMLVideoElement w h) = h"
| "field_height (JHTMLCanvasElement w h) = h"
| "field_height _ = JUndefined"

fun field_closed :: "jsval \<Rightarrow> jsval" where
  "field_closed (JImageBitmap w h cl) = cl"
| "field_closed _ = JUndefined"

text \<open>\<^verbatim>\<open>path._path\<close>; for a \<^verbatim>\<open>Path2D\<close> also its \<^verbatim>\<open>slice()\<close>.\<close>

fun field_path :: "jsval \<Rightarrow> jsval" where
  "field_path (JPath2D ps) = JArray ps"
| "field_path (JObject kvs) = get_prop (JObject kvs) ''_path''"
| "field_path _ = JUndefined"

section \<open>The methods\<close>

text \<open>
  Each method takes the list of the arguments it was called with (its length is
  \<^verbatim>\<open>arguments.length\<close>) and the state \<open>this\<close>, and returns what the call returns or
  raises together with the state it leaves.
\<close>

definition addHitRegion :: "extern \<Rightarrow> jsval list \<Rightarrow> ctx \<Rightarrow> outcome \<times> ctx" where
  "addHitRegion X as this =
     (let options = (if arg as 0 = JUndefined then JObject [] else arg as 0)
      in if options = JNull then throw (TypeError ''Cannot destructure null'') this
         else
           let p = get_prop options ''path'';
               fillRule = get_prop options ''fillRule'';
               ident = get_prop options ''id'';
               parentID = get_prop options ''parentID'';
               cursor = get_prop options ''cursor'';
               control = get_prop options ''control'';
               label = get_prop options ''label'';
               role = get_prop options ''role''
           in if \<not> truthy p \<and> \<not> truthy ident then
                throw (DOMException ''ConstraintError''
                  (failed_to_execute ''addHitRegion'' ''Both id and control are null.'')) this
              else if truthy fillRule \<and> fillRule \<noteq> JStr ''evenodd'' \<and> fillRule \<noteq> JStr ''nonzero'' then
                throw (TypeError (not_a_fill_rule ''addHitRegion'' (to_string X (arrays this) fillRule))) this
              else
                with_slice this (\<lambda>t.
                  ok (push_event
                        (createCanvasEvent ''addHitRegion'' t
                           [(''path'', p), (''fillRule'', fillRule), (''id'', ident),
                            (''parentID'', parentID), (''cursor'', cursor), (''control'', control),
                            (''label'', label), (''role'', role)])
                        this)))"

definition arc :: "extern \<Rightarrow> jsval list \<Rightarrow> ctx \<Rightarrow> outcome \<times> ctx" where
  "arc X as this =
     (if length as < 5 then
        throw (TypeError (required_but_only ''arc'' ''5 arguments'' (length as))) this
      else
        let x = arg as 0; y = arg as 1; radius = arg as 2;
            startAngle = arg as 3; endAngle = arg as 4;
            anticlockwise = (if arg as 5 = JUndefined then JBool False else arg as 5);
            xResult = to_number X (arrays this) x;
            yResult = to_number X (arrays this) y;
            radiusResult = to_number X (arrays this) radius;
            startAngleResult = to_number X (arrays this) startAngle;
            endAngleResult = to_number X (arrays this) endAngle;
            anticlockwiseResult = truthy anticlockwise
        in if \<not> is_finite (xResult + yResult + radiusResult + startAngleResult + endAngleResult) then
             ok this
           else if to_number X (arrays this) radius < Fin 0 then
             throw (DOMException ''IndexSizeError''
               (failed_to_execute ''arc''
                  (''The radius provided ('' @ to_string X (arrays this) radius @ '') is negative.''))) this
           else
             with_slice this (\<lambda>t.
               let event = createCanvasEvent ''arc'' t
                     [(''x'', JNum xResult), (''y'', JNum yResult), (''radius'', JNum radiusResult),
                      (''startAngle'', JNum startAngleResult), (''endAngle'', JNum endAngleResult),
                      (''anticlockwise'', JBool anticlockwiseResult)]
               in ok (push_event event (push_path event this))))"

definition arcTo :: "extern \<Rightarrow> jsval list \<Rightarrow> ctx \<Rightarrow> outcome \<times> ctx" where
  "arcTo X as this =
     (if length as < 5 then
        throw (DOMException ''IndexSizeError''
          (required_but_only ''arcTo'' ''5 arguments'' (length as))) this
      else
        let cpx1 = arg as 0; cpy1 = arg as 1; cpx2 = arg as 2; cpy2 = arg as 3; radius = arg as 4;
            cpx1Result = to_number X (arrays this) cpx1;
            cpy1Result = to_number X (arrays this) cpy1;
            cpx2Result = to_number X (arrays this) cpx2;
            cpy2Result = to_number X (arrays this) cpy2;
            radiusResult = to_number X (arrays this) radius
        in if \<not> is_finite (cpx1Result + cpx2Result + cpy1Result + cpy2Result + radiusResult) then
             ok this
           else if radiusResult < Fin 0 then
             throw (TypeError
               (failed_to_execute ''arcTo''
                  (''The radius provided ('' @ to_string X (arrays this) radius @ '') is negative.''))) this
           else
             with_slice this (\<lambda>t.
               let event = createCanvasEvent ''arcTo'' t
                     [(''cpx1'', JNum cpx1Result), (''cpy1'', JNum cpy1Result),
                      (''cpx2'', JNum cpx2Result), (''cpy2'', JNum cpy2Result),
                      (''radius'', JNum radiusResult)]
               in ok (push_event event (push_path event this))))"

definition beginPath :: "jsval list \<Rightarrow> ctx \<Rightarrow> outcome \<times> ctx" where
  "beginPath as this =
     with_slice this (\<lambda>t.
       let event = createCanvasEvent ''beginPath'' t []
       in ok (push_event event (this\<lparr>path := [event]\<rparr>)))"

definition bezierCurveTo :: "extern \<Rightarrow> jsval list \<Rightarrow> ctx \<Rightarrow> outcome \<times> ctx" where
  "bezierCurveTo X as this =
     (if length as < 6 then
        throw (TypeError (required_but_only ''bezierCurveTo'' ''6 arguments'' (length as))) this
      else
        let cpx1 = arg as 0; cpy1 = arg as 1; cpx2 = arg as 2; cpy2 = arg as 3;
            x = arg as 4; y = arg as 5;
            cpx1Result = to_number X (arrays this) cpx1;
            cpy1Result = to_number X (arrays this) cpy1;
            cpx2Result = to_number X (arrays this) cpx2;
            cpy2Result = to_number X (arrays this) cpy2;
            xResult = to_number X (arrays this) x;
            yResult = to_number X (arrays this) y
        in if \<not> is_finite (cpx1Result + cpy1Result + cpx2Result + cpy2Result + xResult + yResult) then
             ok this
           else
             with_slice this (\<lambda>t.
               let event = createCanvasEvent ''bezierCurveTo'' t
                     [(''cpx1'', cpx1), (''cpy1'', cpy1), (''cpx2'', cpx2), (''cpy2'', cpy2),
                      (''x'', x), (''y'', y)]
               in ok (push_event event (push_path event this))))"

definition clearHitRegions :: "jsval list \<Rightarrow> ctx \<Rightarrow> outcome \<times> ctx" where
  "clearHitRegions as this =
     with_slice this (\<lambda>t.
       let event = createCanvasEvent ''clearHitRegions'' t []
       in ok (push_event event this))"

definition clearRect :: "extern \<Rightarrow> jsval list \<Rightarrow> ctx \<Rightarrow> outcome \<times> ctx" where
  "clearRect X as this =
     (if length as < 4 then
        throw (TypeError (required_but_only ''clearRect'' ''4 arguments'' (length as))) this
      else
        let x = arg as 0; y = arg as 1; width = arg as 2; height = arg as 3;
            xResult = to_number X (arrays this) x;
            yResult = to_number X (arrays this) y;
            widthResult = to_number X (arrays this) width;
            heightResult = to_number X (arrays this) height
        in if \<not> number_isFinite
                  (js_add X (arrays this) (js_add X (arrays this) (js_add X (arrays this) x y) width) height) then
             ok this
           else
             with_slice this (\<lambda>t.
               let event = createCanvasEvent ''clearRect'' t
                     [(''x'', JNum xResult), (''y'', JNum yResult),
                      (''width'', JNum widthResult), (''height'', JNum heightResult)]
               in ok (push_drawCall event (push_event event this))))"

definition clip :: "extern \<Rightarrow> jsval list \<Rightarrow> ctx \<Rightarrow> outcome \<times> ctx" where
  "clip X as this =
     (if length as = 0 then
        with_slice this (\<lambda>t.
          let event = createCanvasEvent ''clip'' t
                [(''path'', JArray (path this)), (''fillRule'', JStr ''nonzero'')]
          in ok (push_event event (push_path event this)))
      else
        let p = arg as 0;
            fillRule0 = (if length as = 1 then JStr ''nonzero'' else arg as 1);
            fillRule = (if instanceof_Path2D p then to_string X (arrays this) fillRule0
                        else to_string X (arrays this) p)
        in if fillRule \<noteq> ''nonzero'' \<and> fillRule \<noteq> ''evenodd'' then
             throw (TypeError (not_a_fill_rule ''clip'' fillRule)) this
           else
             with_slice this (\<lambda>t.
               let event = createCanvasEvent ''clip'' t
                     [(''path'', if instanceof_Path2D p then field_path p else JArray (path this)),
                      (''fillRule'', JStr fillRule)]
               in ok (push_event event (push_path event this))))"

definition closePath :: "jsval list \<Rightarrow> ctx \<Rightarrow> outcome \<times> ctx" where
  "closePath as this =
     with_slice this (\<lambda>t.
       let event = createCanvasEvent ''closePath'' t []
       in ok (push_path event (push_event event this)))"

text \<open>
  \<^verbatim>\<open>createImageData\<close>: with one argument the new \<^verbatim>\<open>ImageData\<close> is built before the event
  is made and pushed; with two the event is pushed first and \<^verbatim>\<open>new ImageData(width, height)\<close>
  is evaluated in the \<^verbatim>\<open>return\<close> statement after it.
\<close>

definition createImageData :: "extern \<Rightarrow> jsval list \<Rightarrow> ctx \<Rightarrow> outcome \<times> ctx" where
  "createImageData X as this =
     (if length as < 1 then
        throw (TypeError (failed_to_execute ''createImageData''
          ''1 argument required, but only 0 present.'')) this
      else if length as = 1 then
        (case arg as 0 of
           JImageData w h \<Rightarrow>
             (case new_ImageData X w h of
                Inl ex \<Rightarrow> throw ex this
              | Inr result \<Rightarrow>
                  with_slice this (\<lambda>t.
                    let event = createCanvasEvent ''createImageData'' t [(''width'', w), (''height'', h)]
                    in returns result (push_event event this)))
         | _ \<Rightarrow>
             throw (TypeError (failed_to_execute ''createImageData''
               (''parameter 1 is not of type '' @ quoted ''ImageData'' @ ''.''))) this)
      else
        let width = math_abs (to_number X (arrays this) (arg as 0));
            height = math_abs (to_number X (arrays this) (arg as 1))
        in if \<not> is_finite width \<or> width = Fin 0 then
             throw (TypeError (failed_to_execute ''createImageData'' ''The source width is 0.'')) this
           else if \<not> is_finite height \<or> height = Fin 0 then
             throw (TypeError (failed_to_execute ''createImageData'' ''The source height is 0.'')) this
           else
             with_slice this (\<lambda>t.
               let event = createCanvasEvent ''createImageData'' t
                     [(''width'', JNum width), (''height'', JNum height)];
                   this1 = push_event event this
               in (case new_ImageData X (JNum width) (JNum height) of
                     Inl ex \<Rightarrow> throw ex this1
                   | Inr result \<Rightarrow> returns result this1)))"

definition createLinearGradient :: "extern \<Rightarrow> jsval list \<Rightarrow> ctx \<Rightarrow> outcome \<times> ctx" where
  "createLinearGradient X as this =
     (if length as < 4 then
        throw (TypeError (required_but_only ''createLinearGradient'' ''4 arguments'' (length as))) this
      else
        let x0Result = to_number X (arrays this) (arg as 0);
            y0Result = to_number X (arrays this) (arg as 1);
            x1Result = to_number X (arrays this) (arg as 2);
            y1Result = to_number X (arrays this) (arg as 3)
        in if \<not> is_finite (x0Result + y0Result + x1Result + y1Result) then
             throw (TypeError (failed_to_execute ''createLinearGradient''
               ''The provided double value is non-finite.'')) this
           else
             with_slice this (\<lambda>t.
               let event = createCanvasEvent ''createLinearGradient'' t
                     [(''x0'', JNum x0Result), (''y0'', JNum y0Result),
                      (''x1'', JNum x1Result), (''y1'', JNum y1Result)]
               in returns JCanvasGradient (push_event event this)))"

definition createPattern :: "extern \<Rightarrow> jsval list \<Rightarrow> ctx \<Rightarrow> outcome \<times> ctx" where
  "createPattern X as this =
     (if length as = 1 then
        throw (TypeError (failed_to_execute ''createPattern''
          ''2 arguments required, but only 1 present.'')) this
      else
        let img = arg as 0;
            type0 = arg as 1;
            type1 = (if type0 = JNull then JStr ''repeat'' else type0);
            type = (if type1 = JStr [] then JStr ''repeat'' else type1)
        in if type = JStr ''repeat'' \<or> type = JStr ''repeat-x'' \<or> type = JStr ''repeat-y''
              \<or> type = JStr ''no-repeat'' then
             with_slice this (\<lambda>t.
               let event = createCanvasEvent ''createPattern'' t [(''image'', img), (''type'', type)]
               in if instanceof_ImageBitmap img then
                    if truthy (field_closed img) then
                      throw (DOMException ''InvalidStateError''
                        (failed_to_execute ''createPattern'' ''The image source is detached.'')) this
                    else returns JCanvasPattern (push_event event this)
                  else if instanceof_HTMLImageElement img then
                    returns JCanvasPattern (push_event event this)
                  else if instanceof_HTMLVideoElement img then
                    returns JCanvasPattern (push_event event this)
                  else if instanceof_HTMLCanvasElement img then
                    returns JCanvasPattern (push_event event this)
                  else throw (TypeError (not_an_image ''createPattern'')) this)
           else
             throw (TypeError (failed_to_execute ''createPattern''
               (''The provided type ('' @ quoted (to_string X (arrays this) type)
                  @ '') is not one of '' @ quoted ''repeat'' @ '', '' @ quoted ''no-repeat''
                  @ '', '' @ quoted ''repeat-x'' @ '', or '' @ quoted ''repeat-y'' @ ''.''))) this)"

definition createRadialGradient :: "extern \<Rightarrow> jsval list \<Rightarrow> ctx \<Rightarrow> outcome \<times> ctx" where
  "createRadialGradient X as this =
     (if length as < 6 then
        throw (TypeError (required_but_only ''createRadialGradient'' ''6 arguments'' (length as))) this
      else
        let x0Result = to_number X (arrays this) (arg as 0);
            y0Result = to_number X (arrays this) (arg as 1);
            r0Result = to_number X (arrays this) (arg as 2);
            x1Result = to_number X (arrays this) (arg as 3);
            y1Result = to_number X (arrays this) (arg as 4);
            r1Result = to_number X (arrays this) (arg as 5)
        in if \<not> is_finite (x0Result + y0Result + r0Result + x1Result + y1Result + r1Result) then
             throw (TypeError (failed_to_execute ''createRadialGradient''
               ''The provided double value is non-finite.'')) this
           else if r0Result < Fin 0 then
             throw (DOMException ''IndexSizeError''
               (failed_to_execute ''createRadialGradient'' ''The r0 provided is less than 0.'')) this
           else if r1Result < Fin 0 then
             throw (DOMException ''IndexSizeError''
               (failed_to_execute ''createRadialGradient'' ''The r1 provided is less than 0.'')) this
           else
             with_slice this (\<lambda>t.
               let event = createCanvasEvent ''createRadialGradient'' t
                     [(''x0'', JNum x0Result), (''y0'', JNum y0Result), (''r0'', JNum r0Result),
                      (''x1'', JNum x1Result), (''y1'', JNum y1Result), (''r1'', JNum r1Result)]
               in returns JCanvasGradient (push_event event this)))"

definition drawFocusIfNeeded :: "extern \<Rightarrow> jsval list \<Rightarrow> ctx \<Rightarrow> outcome \<times> ctx" where
  "drawFocusIfNeeded X as this =
     (if length as = 0 then
        throw (TypeError (failed_to_execute ''drawFocusIfNeeded''
          ''1 argument required, but only 0 present.'')) this
      else if length as = 2 \<and> \<not> instanceof_Path2D (arg as 0) then
        throw (TypeError (failed_to_execute ''drawFocusIfNeeded''
          (''parameter 1 is not of type '' @ quoted ''Path2D'' @ ''.''))) this
      else
        let element = (if length as = 1 then arg as 0 else arg as 1);
            p = (if length as = 1 then JNull else arg as 0)
        in if \<not> instanceof_Element element then
             throw (TypeError (failed_to_execute ''drawFocusIfNeeded''
               (''parameter '' @ show_nat (length as) @ '' is not of type '' @ quoted ''Element''
                  @ ''.''))) this
           else
             with_slice this (\<lambda>t.
               let event = createCanvasEvent ''drawFocusIfNeeded'' t
                     [(''path'', if truthy p then field_path p else JNull), (''element'', element)]
               in ok (push_event event this)))"

definition drawImage :: "extern \<Rightarrow> jsval list \<Rightarrow> ctx \<Rightarrow> outcome \<times> ctx" where
  "drawImage X as this =
     (if length as < 3 then
        throw (TypeError (required_but_only ''drawImage'' ''3 arguments'' (length as))) this
      else if length as = 4 \<or> (5 < length as \<and> length as < 9) then
        throw (TypeError (failed_to_execute ''drawImage''
          ''Valid arities are: [3, 5, 9], but 4 arguments provided.'')) this
      else
        let img = arg as 0; sx = arg as 1; sy = arg as 2; sWidth = arg as 3; sHeight = arg as 4;
            dx = arg as 5; dy = arg as 6; dWidth = arg as 7; dHeight = arg as 8
        in if instanceof_ImageBitmap img \<and> truthy (field_closed img) then
             throw (DOMException ''InvalidStateError''
               (''DOMException: '' @ failed_to_execute ''drawImage'' ''The image source is detached.'')) this
           else if \<not> (instanceof_HTMLImageElement img \<or> instanceof_ImageBitmap img
                       \<or> instanceof_HTMLVideoElement img \<or> instanceof_HTMLCanvasElement img) then
             throw (TypeError (not_an_image ''drawImage'')) this
           else
             let sxResult = to_number X (arrays this) sx;
                 syResult = to_number X (arrays this) sy;
                 sWidthResult = to_number X (arrays this) sWidth;
                 sHeightResult = to_number X (arrays this) sHeight;
                 dxResult = to_number X (arrays this) dx;
                 dyResult = to_number X (arrays this) dy;
                 dWidthResult = to_number X (arrays this) dWidth;
                 dHeightResult = to_number X (arrays this) dHeight
             in if length as = 3 then
                  if \<not> is_finite (sxResult + syResult) then ok this
                  else
                    with_slice this (\<lambda>t.
                      let event = createCanvasEvent ''drawImage'' t
                            [(''img'', img), (''sx'', JNum (Fin 0)), (''sy'', JNum (Fin 0)),
                             (''sWidth'', field_width img), (''sHeight'', field_height img),
                             (''dx'', JNum sxResult), (''dy'', JNum syResult),
                             (''dWidth'', field_width img), (''dHeight'', field_height img)]
                      in ok (push_drawCall event (push_event event this)))
                else if length as = 5 then
                  if \<not> is_finite (sxResult + syResult + sWidthResult + sHeightResult) then ok this
                  else
                    with_slice this (\<lambda>t.
                      let event = createCanvasEvent ''drawImage'' t
                            [(''img'', img), (''sx'', JNum (Fin 0)), (''sy'', JNum (Fin 0)),
                             (''sWidth'', field_width img), (''sHeight'', field_height img),
                             (''dx'', JNum sxResult), (''dy'', JNum syResult),
                             (''dWidth'', field_width img), (''dHeight'', field_height img)]
                      in ok (push_drawCall event (push_event event this)))
                else
                  if \<not> number_isFinite
                         (js_add X (arrays this) (js_add X (arrays this) (js_add X (arrays this)
                           (js_add X (arrays this) (js_add X (arrays this) (js_add X (arrays this)
                             (js_add X (arrays this) sx sy) sWidth) sHeight) dx) dy) dWidth) dHeight)
                  then ok this
                  else
                    with_slice this (\<lambda>t.
                      let event = createCanvasEvent ''drawImage'' t
                            [(''img'', img), (''sx'', JNum sxResult), (''sy'', JNum syResult),
                             (''sWidth'', JNum sWidthResult), (''sHeight'', JNum sHeightResult),
                             (''dx'', JNum dxResult), (''dy'', JNum dyResult),
                             (''dWidth'', JNum dWidthResult), (''dHeight'', JNum dHeightResult)]
                      in ok (push_drawCall event (push_event event this))))"

definition ellipse :: "extern \<Rightarrow> jsval list \<Rightarrow> ctx \<Rightarrow> outcome \<times> ctx" where
  "ellipse X as this =
     (if length as < 7 then
        throw (TypeError (required_but_only ''ellipse'' ''6 arguments'' (length as))) this
      else
        let x = arg as 0; y = arg as 1; radiusX = arg as 2; radiusY = arg as 3;
            rotation = arg as 4; startAngle = arg as 5; endAngle = arg as 6;
            anticlockwise = (if arg as 7 = JUndefined then JBool False else arg as 7);
            xResult = to_number X (arrays this) x;
            yResult = to_number X (arrays this) y;
            radiusXResult = to_number X (arrays this) radiusX;
            radiusYResult = to_number X (arrays this) radiusY;
            rotationResult = to_number X (arrays this) rotation;
            startAngleResult = to_number X (arrays this) startAngle;
            endAngleResult = to_number X (arrays this) endAngle;
            anticlockwiseResult = truthy anticlockwise
        in if \<not> is_finite (xResult + yResult + radiusXResult + radiusYResult + rotationResult
                             + startAngleResult + endAngleResult) then
             ok this
           else if to_number X (arrays this) radiusX < Fin 0 then
             throw (DOMException ''IndexSizeError''
               (failed_to_execute ''ellipse''
                  (''The major-axis radius provided ('' @ to_string X (arrays this) radiusX
                     @ '') is negative.''))) this
           else if to_number X (arrays this) radiusY < Fin 0 then
             throw (DOMException ''IndexSizeError''
               (failed_to_execute ''ellipse''
                  (''The minor-axis radius provided ('' @ to_string X (arrays this) radiusY
                     @ '') is negative.''))) this
           else
             with_slice this (\<lambda>t.
               let event = createCanvasEvent ''ellipse'' t
                     [(''x'', JNum xResult), (''y'', JNum yResult),
                      (''radiusX'', JNum radiusXResult), (''radiusY'', JNum radiusYResult),
                      (''rotation'', JNum rotationResult), (''startAngle'', JNum startAngleResult),
                      (''endAngle'', JNum endAngleResult),
                      (''anticlockwise'', JBool anticlockwiseResult)]
               in ok (push_event event (push_path event this))))"

text \<open>The message of \<^verbatim>\<open>fill\<close> names \<^verbatim>\<open>clip\<close>, as in the source.\<close>

definition fill :: "extern \<Rightarrow> jsval list \<Rightarrow> ctx \<Rightarrow> outcome \<times> ctx" where
  "fill X as this =
     (if length as = 0 then
        with_slice this (\<lambda>t.
          let event = createCanvasEvent ''fill'' t
                [(''path'', JArray (path this)), (''fillRule'', JStr ''nonzero'')]
          in ok (push_drawCall event (push_event event this)))
      else
        let p = arg as 0;
            fillRule0 = (if length as = 1 then JStr ''nonzero'' else arg as 1);
            fillRule = (if instanceof_Path2D p then to_string X (arrays this) fillRule0
                        else to_string X (arrays this) p)
        in if fillRule \<noteq> ''nonzero'' \<and> fillRule \<noteq> ''evenodd'' then
             throw (TypeError (not_a_fill_rule ''clip'' fillRule)) this
           else
             with_slice this (\<lambda>t.
               let event = createCanvasEvent ''fill'' t
                     [(''path'', if instanceof_Path2D p then field_path p else JArray (path this)),
                      (''fillRule'', JStr fillRule)]
               in ok (push_drawCall event (push_event event this))))"

definition fillRect :: "extern \<Rightarrow> jsval list \<Rightarrow> ctx \<Rightarrow> outcome \<times> ctx" where
  "fillRect X as this =
     (if length as < 4 then
        throw (TypeError (required_but_only ''fillRect'' ''4 arguments'' (length as))) this
      else
        let x = arg as 0; y = arg as 1; width = arg as 2; height = arg as 3;
            xResult = to_number X (arrays this) x;
            yResult = to_number X (arrays this) y;
            widthResult = to_number X (arrays this) width;
            heightResult = to_number X (arrays this) height
        in if \<not> number_isFinite
                  (js_add X (arrays this) (js_add X (arrays this) (js_add X (arrays this) x y) width) height) then
             ok this
           else
             with_slice this (\<lambda>t.
               let event = createCanvasEvent ''fillRect'' t
                     [(''x'', JNum xResult), (''y'', JNum yResult),
                      (''width'', JNum widthResult), (''height'', JNum heightResult)]
               in ok (push_drawCall event (push_event event this))))"

definition fillText :: "extern \<Rightarrow> jsval list \<Rightarrow> ctx \<Rightarrow> outcome \<times> ctx" where
  "fillText X as this =
     (if length as < 3 then
        throw (TypeError (required_but_only ''fillText'' ''3 arguments'' (length as))) this
      else
        let textResult = to_string X (arrays this) (arg as 0);
            xResult = to_number X (arrays this) (arg as 1);
            yResult = to_number X (arrays this) (arg as 2);
            maxWidthResult = to_number X (arrays this) (arg as 3)
        in if length as = 3 \<and> \<not> is_finite (xResult + yResult) then ok this
           else if 3 < length as \<and> \<not> is_finite (xResult + yResult + maxWidthResult) then ok this
           else
             with_slice this (\<lambda>t.
               let event = createCanvasEvent ''fillText'' t
                     [(''text'', JStr textResult), (''x'', JNum xResult), (''y'', JNum yResult),
                      (''maxWidth'', if length as = 3 then JNull else JNum maxWidthResult)]
               in ok (push_drawCall event (push_event event this))))"

definition getImageData :: "extern \<Rightarrow> jsval list \<Rightarrow> ctx \<Rightarrow> outcome \<times> ctx" where
  "getImageData X as this =
     (if canvas this = JUndefined \<or> canvas this = JNull then throw undefined_read this
      else
        (case new_ImageData X (field_width (canvas this)) (field_height (canvas this)) of
           Inl ex \<Rightarrow> throw ex this
         | Inr result \<Rightarrow> returns result this))"

definition getLineDash :: "jsval list \<Rightarrow> ctx \<Rightarrow> outcome \<times> ctx" where
  "getLineDash as this = returns (js_get (lineDashStack this) (stackIndex this)) this"

text \<open>
  Modelled from the spec: \<^verbatim>\<open>new DOMMatrix(array)\<close> (\<^verbatim>\<open>src/classes/DOMMatrix.js\<close> is not
  among the sources) has the six elements of the array as its fields \<^verbatim>\<open>a..f\<close>, and is the
  identity without an array.
\<close>

definition new_DOMMatrix :: "ctx \<Rightarrow> jsval" where
  "new_DOMMatrix this =
     (case current_transform this of
        None \<Rightarrow> JDOMMatrix (Fin 1) (Fin 0) (Fin 0) (Fin 1) (Fin 0) (Fin 0)
      | Some r \<Rightarrow> (case matrices this r of Matrix a b c d e f \<Rightarrow> JDOMMatrix a b c d e f))"

definition getTransform :: "jsval list \<Rightarrow> ctx \<Rightarrow> outcome \<times> ctx" where
  "getTransform as this = returns (new_DOMMatrix this) this"

definition isPointInPath :: "extern \<Rightarrow> jsval list \<Rightarrow> ctx \<Rightarrow> outcome \<times> ctx" where
  "isPointInPath X as this =
     (if length as < 2 then
        throw (TypeError (required_but_only ''isPointInPath'' ''2 arguments'' (length as))) this
      else
        let p = arg as 0;
            fillRule0 = (if arg as 3 = JUndefined then JStr ''nonzero'' else arg as 3);
            fillRule = (if \<not> instanceof_Path2D p \<and> 2 < length as then arg as 2 else fillRule0);
            y = (if \<not> instanceof_Path2D p then arg as 1 else arg as 2);
            x = (if \<not> instanceof_Path2D p then p else arg as 1)
        in if fillRule \<noteq> JStr ''nonzero'' \<and> fillRule \<noteq> JStr ''evenodd'' then
             throw (TypeError (not_a_fill_rule ''isPointInPath'' (to_string X (arrays this) fillRule))) this
           else
             with_slice this (\<lambda>t.
               let event = createCanvasEvent ''isPointInPath'' t
                     [(''x'', JNum (to_number X (arrays this) x)),
                      (''y'', JNum (to_number X (arrays this) y)),
                      (''fillRule'', fillRule),
                      (''path'', if instanceof_Path2D p then field_path p else JArray (path this))]
               in returns (JBool False) (push_event event this)))"

text \<open>The event of \<^verbatim>\<open>isPointInStroke\<close> has the type \<^verbatim>\<open>isPointInPath\<close>, as in the source.\<close>

definition isPointInStroke :: "extern \<Rightarrow> jsval list \<Rightarrow> ctx \<Rightarrow> outcome \<times> ctx" where
  "isPointInStroke X as this =
     (if length as < 2 then
        throw (TypeError (required_but_only ''isPointInStroke'' ''2 arguments'' (length as))) this
      else
        let p = arg as 0;
            y = (if \<not> instanceof_Path2D p then arg as 1 else arg as 2);
            x = (if \<not> instanceof_Path2D p then p else arg as 1)
        in with_slice this (\<lambda>t.
             let event = createCanvasEvent ''isPointInPath'' t
                   [(''x'', JNum (to_number X (arrays this) x)),
                    (''y'', JNum (to_number X (arrays this) y)),
                    (''path'', if instanceof_Path2D p then field_path p else JArray (path this))]
             in returns (JBool False) (push_event event this)))"

definition lineTo :: "extern \<Rightarrow> jsval list \<Rightarrow> ctx \<Rightarrow> outcome \<times> ctx" where
  "lineTo X as this =
     (if length as < 2 then
        throw (TypeError (required_but_only ''lineTo'' ''2 arguments'' (length as))) this
      else
        let xResult = to_number X (arrays this) (arg as 0);
            yResult = to_number X (arrays this) (arg as 1)
        in if \<not> is_finite (xResult + yResult) then ok this
           else
             with_slice this (\<lambda>t.
               let event = createCanvasEvent ''lineTo'' t [(''x'', JNum xResult), (''y'', JNum yResult)]
               in ok (push_path event (push_event event this))))"

definition measureText :: "extern \<Rightarrow> jsval list \<Rightarrow> ctx \<Rightarrow> outcome \<times> ctx" where
  "measureText X as this =
     (if length as < 1 then
        throw (TypeError (failed_to_execute ''measureText''
          ''1 argument required, but only 0 present.'')) this
      else
        let text0 = (if arg as 0 = JUndefined \<or> arg as 0 = JNull then JStr [] else arg as 0);
            text = to_string X (arrays this) text0
        in with_slice this (\<lambda>t.
             let event = createCanvasEvent ''measureText'' t [(''text'', JStr text)]
             in returns (JTextMetrics text) (push_event event this)))"

definition moveTo :: "extern \<Rightarrow> jsval list \<Rightarrow> ctx \<Rightarrow> outcome \<times> ctx" where
  "moveTo X as this =
     (if length as < 2 then
        throw (TypeError (required_but_only ''moveTo'' ''2 arguments'' (length as))) this
      else
        let x = arg as 0; y = arg as 1;
            xResult = to_number X (arrays this) x;
            yResult = to_number X (arrays this) y
        in if \<not> number_isFinite (js_add X (arrays this) x y) then ok this
           else
             with_slice this (\<lambda>t.
               let event = createCanvasEvent ''moveTo'' t [(''x'', JNum xResult), (''y'', JNum yResult)]
               in ok (push_path event (push_event event this))))"

definition putImageData :: "extern \<Rightarrow> jsval list \<Rightarrow> ctx \<Rightarrow> outcome \<times> ctx" where
  "putImageData X as this =
     (if length as < 3 then
        throw (TypeError (required_but_only ''putImageData'' ''3 arguments'' (length as))) this
      else if 3 < length as \<and> length as < 7 then
        throw (TypeError (failed_to_execute ''putImageData''
          (''Valid arities are: [3, 7], but '' @ show_nat (length as) @ '' arguments provided.''))) this
      else
        (case arg as 0 of
           JImageData w h \<Rightarrow>
             let xResult = to_number X (arrays this) (arg as 1);
                 yResult = to_number X (arrays this) (arg as 2);
                 dirtyXResult = to_number X (arrays this) (arg as 3);
                 dirtyYResult = to_number X (arrays this) (arg as 4);
                 dirtyWidthResult = to_number X (arrays this) (arg as 5);
                 dirtyHeightResult = to_number X (arrays this) (arg as 6)
             in if (if length as = 3 then \<not> is_finite (xResult + yResult)
                    else \<not> is_finite (xResult + yResult + dirtyXResult + dirtyYResult
                                         + dirtyWidthResult + dirtyHeightResult)) then
                  ok this
                else
                  with_slice this (\<lambda>t.
                    let event = createCanvasEvent ''putImageData'' t
                          [(''x'', JNum xResult), (''y'', JNum yResult),
                           (''dirtyX'', JNum dirtyXResult), (''dirtyY'', JNum dirtyYResult),
                           (''dirtyWidth'', JNum dirtyWidthResult),
                           (''dirtyHeight'', JNum dirtyHeightResult)]
                    in ok (push_event event this))
         | _ \<Rightarrow>
             throw (TypeError (failed_to_execute ''putImageData''
               (''parameter 1 is not of type '' @ quoted ''ImageData'' @ ''.''))) this))"

definition quadraticCurveTo :: "extern \<Rightarrow> jsval list \<Rightarrow> ctx \<Rightarrow> outcome \<times> ctx" where
  "quadraticCurveTo X as this =
     (if length as < 4 then
        throw (TypeError (required_but_only ''quadraticCurveTo'' ''4 arguments'' (length as))) this
      else
        let cpxResult = to_number X (arrays this) (arg as 0);
            cpyResult = to_number X (arrays this) (arg as 1);
            xResult = to_number X (arrays this) (arg as 2);
            yResult = to_number X (arrays this) (arg as 3)
        in if \<not> is_finite (cpxResult + cpyResult + xResult + yResult) then ok this
           else
             with_slice this (\<lambda>t.
               let event = createCanvasEvent ''quadraticCurveTo'' t
                     [(''cpx'', JNum cpxResult), (''cpy'', JNum cpyResult),
                      (''x'', JNum xResult), (''y'', JNum yResult)]
               in ok (push_event event this)))"

definition rect :: "extern \<Rightarrow> jsval list \<Rightarrow> ctx \<Rightarrow> outcome \<times> ctx" where
  "rect X as this =
     (if length as < 4 then
        throw (TypeError (required_but_only ''rect'' ''4 arguments'' (length as))) this
      else
        let x = arg as 0; y = arg as 1; width = arg as 2; height = arg as 3
        in if \<not> number_isFinite
                  (js_add X (arrays this) (js_add X (arrays this) (js_add X (arrays this) x y) width) height) then
             ok this
           else
             let xResult = to_number X (arrays this) x;
                 yResult = to_number X (arrays this) y;
                 widthResult = to_number X (arrays this) width;
                 heightResult = to_number X (arrays this) height
             in with_slice this (\<lambda>t.
                  let event = createCanvasEvent ''rect'' t
                        [(''x'', JNum xResult), (''y'', JNum yResult),
                         (''width'', JNum widthResult), (''height'', JNum heightResult)]
                  in ok (push_path event (push_event event this))))"

definition removeHitRegion :: "jsval list \<Rightarrow> ctx \<Rightarrow> outcome \<times> ctx" where
  "removeHitRegion as this =
     (if length as < 1 then
        throw (TypeError (required_but_only ''removeHitRegion'' ''1 argument'' (length as))) this
      else
        with_slice this (\<lambda>t.
          let event = createCanvasEvent ''removeHitRegion'' t [(''id'', arg as 0)]
          in ok (push_event event this)))"

definition resetTransform :: "jsval list \<Rightarrow> ctx \<Rightarrow> outcome \<times> ctx" where
  "resetTransform as this =
     with_matrix this (\<lambda>r m.
       let this1 = set_matrix r (Matrix (Fin 1) (Fin 0) (Fin 0) (Fin 1) (Fin 0) (Fin 0)) this
       in with_slice this1 (\<lambda>t.
            let event = createCanvasEvent ''resetTransform'' t
                  [(''a'', JNum (Fin 1)), (''b'', JNum (Fin 0)), (''c'', JNum (Fin 0)),
                   (''d'', JNum (Fin 1)), (''e'', JNum (Fin 0)), (''f'', JNum (Fin 0))]
            in ok (push_event event this1)))"

definition restore :: "jsval list \<Rightarrow> ctx \<Rightarrow> outcome \<times> ctx" where
  "restore as this =
     (if stackIndex this \<le> 0 then ok this
      else
        let this1 = this
              \<lparr> transformStack := butlast (transformStack this),
                directionStack := butlast (directionStack this),
                fillStyleStack := butlast (fillStyleStack this),
                filterStack := butlast (filterStack this),
                fontStack := butlast (fontStack this),
                globalAlphaStack := butlast (globalAlphaStack this),
                globalCompositeOperationStack := butlast (globalCompositeOperationStack this),
                imageSmoothingEnabledStack := butlast (imageSmoothingEnabledStack this),
                imageSmoothingQualityStack := butlast (imageSmoothingQualityStack this),
                lineCapStack := butlast (lineCapStack this),
                lineDashStack := butlast (lineDashStack this),
                lineDashOffsetStack := butlast (lineDashOffsetStack this),
                lineJoinStack := butlast (lineJoinStack this),
                lineWidthStack := butlast (lineWidthStack this),
                miterLimitStack := butlast (miterLimitStack this),
                shadowBlurStack := butlast (shadowBlurStack this),
                shadowColorStack := butlast (shadowColorStack this),
                shadowOffsetXStack := butlast (shadowOffsetXStack this),
                shadowOffsetYStack := butlast (shadowOffsetYStack this),
                strokeStyleStack := butlast (strokeStyleStack this),
                textAlignStack := butlast (textAlignStack this),
                textBaselineStack := butlast (textBaselineStack this),
                stackIndex := stackIndex this - 1 \<rparr>
        in with_slice this1 (\<lambda>t.
             let event = createCanvasEvent ''restore'' t []
             in ok (push_event event this1)))"

definition rotate_ctx :: "extern \<Rightarrow> jsval list \<Rightarrow> ctx \<Rightarrow> outcome \<times> ctx" where
  "rotate_ctx X as this =
     (if length as < 1 then
        throw (TypeError (failed_to_execute ''rotate''
          ''1 argument required, but only 0 present.'')) this
      else
        let angle = to_number X (arrays this) (arg as 0)
        in if \<not> is_finite angle then ok this
           else
             with_matrix this (\<lambda>r m.
               case m of Matrix a b c d e f \<Rightarrow>
                 let cosv = math_cos X angle;
                     sinv = math_sin X angle;
                     this1 = set_matrix r
                       (Matrix (a * cosv + c * sinv) (b * cosv + d * sinv)
                               (c * cosv - a * sinv) (d * cosv - b * sinv) e f) this
                 in with_slice this1 (\<lambda>t.
                      let event = createCanvasEvent ''rotate'' t [(''angle'', JNum angle)]
                      in ok (push_event event this1))))"

text \<open>
  \<^verbatim>\<open>save()\<close> pushes \<^verbatim>\<open>this._lineWidthStack[this.stackIndex]\<close>: the class has no field
  \<^verbatim>\<open>stackIndex\<close>, so the index is \<^verbatim>\<open>undefined\<close> and so is the element pushed.
\<close>

definition save :: "jsval list \<Rightarrow> ctx \<Rightarrow> outcome \<times> ctx" where
  "save as this =
     (let this1 = this
            \<lparr> transformStack := transformStack this @ [current_transform this],
              directionStack := directionStack this @ [js_get (directionStack this) (stackIndex this)],
              fillStyleStack := fillStyleStack this @ [js_get (fillStyleStack this) (stackIndex this)],
              filterStack := filterStack this @ [js_get (filterStack this) (stackIndex this)],
              fontStack := fontStack this @ [js_get (fontStack this) (stackIndex this)],
              globalAlphaStack := globalAlphaStack this @ [js_get (globalAlphaStack this) (stackIndex this)],
              globalCompositeOperationStack := globalCompositeOperationStack this
                 @ [js_get (globalCompositeOperationStack this) (stackIndex this)],
              imageSmoothingEnabledStack := imageSmoothingEnabledStack this
                 @ [js_get (imageSmoothingEnabledStack this) (stackIndex this)],
              imageSmoothingQualityStack := imageSmoothingQualityStack this
                 @ [js_get (imageSmoothingQualityStack this) (stackIndex this)],
              lineCapStack := lineCapStack this @ [js_get (lineCapStack this) (stackIndex this)],
              lineDashStack := lineDashStack this @ [js_get (lineDashStack this) (stackIndex this)],
              lineDashOffsetStack := lineDashOffsetStack this
                 @ [js_get (lineDashOffsetStack this) (stackIndex this)],
              lineJoinStack := lineJoinStack this @ [js_get (lineJoinStack this) (stackIndex this)],
              lineWidthStack := lineWidthStack this @ [JUndefined],
              miterLimitStack := miterLimitStack this @ [js_get (miterLimitStack this) (stackIndex this)],
              shadowBlurStack := shadowBlurStack this @ [js_get (shadowBlurStack this) (stackIndex this)],
              shadowColorStack := shadowColorStack this @ [js_get (shadowColorStack this) (stackIndex this)],
              shadowOffsetXStack := shadowOffsetXStack this
                 @ [js_get (shadowOffsetXStack this) (stackIndex this)],
              shadowOffsetYStack := shadowOffsetYStack this
                 @ [js_get (shadowOffsetYStack this) (stackIndex this)],
              strokeStyleStack := strokeStyleStack this @ [js_get (strokeStyleStack this) (stackIndex this)],
              textAlignStack := textAlignStack this @ [js_get (textAlignStack this) (stackIndex this)],
              textBaselineStack := textBaselineStack this
                 @ [js_get (textBaselineStack this) (stackIndex this)],
              stackIndex := stackIndex this + 1 \<rparr>
      in with_slice this1 (\<lambda>t.
           let event = createCanvasEvent ''save'' t []
           in ok (push_event event this1)))"

definition scale :: "extern \<Rightarrow> jsval list \<Rightarrow> ctx \<Rightarrow> outcome \<times> ctx" where
  "scale X as this =
     (if length as < 2 then
        throw (TypeError (required_but_only ''scale'' ''2 arguments'' (length as))) this
      else
        let xResult = to_number X (arrays this) (arg as 0);
            yResult = to_number X (arrays this) (arg as 1)
        in if is_finite xResult \<and> is_finite yResult then
             with_matrix this (\<lambda>r m.
               case m of Matrix a b c d e f \<Rightarrow>
                 let this1 = set_matrix r
                       (Matrix (a * xResult) (b * xResult) (c * yResult) (d * yResult) e f) this
                 in with_slice this1 (\<lambda>t.
                      let event = createCanvasEvent ''scale'' t
                            [(''x'', JNum xResult), (''y'', JNum yResult)]
                      in ok (push_event event this1)))
           else ok this)"

definition scrollPathIntoView :: "jsval list \<Rightarrow> ctx \<Rightarrow> outcome \<times> ctx" where
  "scrollPathIntoView as this =
     (let p = (if 0 < length as \<and> instanceof_Path2D (arg as 0) then field_path (arg as 0)
               else JArray (path this))
      in with_slice this (\<lambda>t.
           let event = createCanvasEvent ''scrollPathIntoView'' t [(''path'', p)]
           in ok (push_event event this)))"

text \<open>
  \<^verbatim>\<open>setLineDash\<close>: the sequence test, the loop (which returns at the first element that
  is not a finite number \<open>\<ge> 0\<close>), and the stored array, which is a new one.
\<close>

definition as_sequence :: "ctx \<Rightarrow> jsval \<Rightarrow> jsval list option" where
  "as_sequence this v =
     (case v of
        JArray xs \<Rightarrow> Some xs
      | JTypedArray xs \<Rightarrow> Some xs
      | JRef a \<Rightarrow> Some (arrays this a)
      | _ \<Rightarrow> None)"

fun dash_values :: "extern \<Rightarrow> (nat \<Rightarrow> jsval list) \<Rightarrow> jsval list \<Rightarrow> num list option" where
  "dash_values X h [] = Some []"
| "dash_values X h (v # vs) =
     (let val = to_number X h v
      in if is_finite val \<and> Fin 0 \<le> val then
           (case dash_values X h vs of None \<Rightarrow> None | Some result \<Rightarrow> Some (val # result))
         else None)"

definition setLineDash :: "extern \<Rightarrow> jsval list \<Rightarrow> ctx \<Rightarrow> outcome \<times> ctx" where
  "setLineDash X as this =
     (case as_sequence this (arg as 0) of
        None \<Rightarrow>
          throw (TypeError (failed_to_execute ''setLineDash''
            ''The provided value cannot be converted to a sequence.'')) this
      | Some lineDash \<Rightarrow>
          (case dash_values X (arrays this) lineDash of
             None \<Rightarrow> ok this
           | Some result0 \<Rightarrow>
               let result = map JNum (if length result0 mod 2 = 1 then result0 @ result0 else result0);
                   a = fresh this;
                   this1 = this
                     \<lparr> arrays := (arrays this)(a := result),
                       fresh := a + 1,
                       lineDashStack := js_set (lineDashStack this) (stackIndex this) (JRef a) \<rparr>
               in with_slice this1 (\<lambda>t.
                    let event = createCanvasEvent ''setLineDash'' t [(''value'', JArray result)]
                    in ok (push_event event this1))))"

definition setTransform :: "extern \<Rightarrow> jsval list \<Rightarrow> ctx \<Rightarrow> outcome \<times> ctx" where
  "setTransform X as this =
     (if length as = 1 \<and> (case arg as 0 of JDOMMatrix a b c d e f \<Rightarrow> False | _ \<Rightarrow> True) then
        throw (TypeError (failed_to_execute ''setTransform''
          (''parameter '' @ to_string X (arrays this) (arg as 0) @ '' ('' @ quoted ''transform''
             @ '') is not an object.''))) this
      else if 1 < length as \<and> length as < 6 then
        throw (TypeError (failed_to_execute ''setTransform''
          (''Valid arities are: [0, 1, 6], but '' @ show_nat (length as) @ '' arguments provided.''))) this
      else
        let given =
              (if length as = 0 then
                 [JNum (Fin 1), JNum (Fin 0), JNum (Fin 0), JNum (Fin 1), JNum (Fin 0), JNum (Fin 0)]
               else if length as = 1 then
                 (case arg as 0 of
                    JDOMMatrix a b c d e f \<Rightarrow> [JNum a, JNum b, JNum c, JNum d, JNum e, JNum f]
                  | _ \<Rightarrow> [])
               else [arg as 0, arg as 1, arg as 2, arg as 3, arg as 4, arg as 5]);
            a = to_number X (arrays this) (arg given 0);
            b = to_number X (arrays this) (arg given 1);
            c = to_number X (arrays this) (arg given 2);
            d = to_number X (arrays this) (arg given 3);
            e = to_number X (arrays this) (arg given 4);
            f = to_number X (arrays this) (arg given 5)
        in if \<not> is_finite (a + b + c + d + e + f) then ok this
           else
             with_matrix this (\<lambda>r m.
               let this1 = set_matrix r (Matrix a b c d e f) this
               in with_slice this1 (\<lambda>t.
                    let event = createCanvasEvent ''setTransform'' t
                          [(''a'', JNum a), (''b'', JNum b), (''c'', JNum c),
                           (''d'', JNum d), (''e'', JNum e), (''f'', JNum f)]
                    in ok (push_event event this1))))"

definition stroke :: "jsval list \<Rightarrow> ctx \<Rightarrow> outcome \<times> ctx" where
  "stroke as this =
     (if length as \<noteq> 0 \<and> \<not> instanceof_Path2D (arg as 0) then
        throw (TypeError (failed_to_execute ''stroke''
          (''parameter 1 is not of type '' @ quoted ''Path2D'' @ ''.''))) this
      else
        let p = (if length as = 0 then JArray (path this) else field_path (arg as 0))
        in with_slice this (\<lambda>t.
             let event = createCanvasEvent ''stroke'' t [(''path'', p)]
             in ok (push_drawCall event (push_event event this))))"

definition strokeRect :: "extern \<Rightarrow> jsval list \<Rightarrow> ctx \<Rightarrow> outcome \<times> ctx" where
  "strokeRect X as this =
     (if length as < 4 then
        throw (TypeError (required_but_only ''strokeRect'' ''4 arguments'' (length as))) this
      else
        let x = to_number X (arrays this) (arg as 0);
            y = to_number X (arrays this) (arg as 1);
            width = to_number X (arrays this) (arg as 2);
            height = to_number X (arrays this) (arg as 3)
        in if \<not> is_finite (x + y + width + height) then ok this
           else
             with_slice this (\<lambda>t.
               let event = createCanvasEvent ''strokeRect'' t
                     [(''x'', JNum x), (''y'', JNum y), (''width'', JNum width), (''height'', JNum height)]
               in ok (push_drawCall event (push_event event this))))"

definition strokeText :: "extern \<Rightarrow> jsval list \<Rightarrow> ctx \<Rightarrow> outcome \<times> ctx" where
  "strokeText X as this =
     (if length as < 3 then
        throw (TypeError (required_but_only ''strokeText'' ''3 arguments'' (length as))) this
      else
        let textResult = to_string X (arrays this) (arg as 0);
            xResult = to_number X (arrays this) (arg as 1);
            yResult = to_number X (arrays this) (arg as 2);
            maxWidthResult = to_number X (arrays this) (arg as 3)
        in if length as = 3 \<and> \<not> is_finite (xResult + yResult) then ok this
           else if 3 < length as \<and> \<not> is_finite (xResult + yResult + maxWidthResult) then ok this
           else
             with_slice this (\<lambda>t.
               let event = createCanvasEvent ''strokeText'' t
                     [(''text'', JStr textResult), (''x'', JNum xResult), (''y'', JNum yResult),
                      (''maxWidth'', if length as = 3 then JNull else JNum maxWidthResult)]
               in ok (push_drawCall event (push_event event this))))"

definition transform :: "extern \<Rightarrow> jsval list \<Rightarrow> ctx \<Rightarrow> outcome \<times> ctx" where
  "transform X as this =
     (if length as < 6 then
        throw (TypeError (required_but_only ''transform'' ''6 arguments'' (length as))) this
      else
        let a = to_number X (arrays this) (arg as 0);
            b = to_number X (arrays this) (arg as 1);
            c = to_number X (arrays this) (arg as 2);
            d = to_number X (arrays this) (arg as 3);
            e = to_number X (arrays this) (arg as 4);
            f = to_number X (arrays this) (arg as 5)
        in if \<not> is_finite (a + b + c + d + e + f) then ok this
           else
             with_matrix this (\<lambda>r m.
               case m of Matrix sa sb sc sd se sf \<Rightarrow>
                 let this1 = set_matrix r
                       (Matrix (sa * a + sc * b) (sb * a + sd * b)
                               (sa * c + sc * d) (sb * c + sd * d)
                               (sa * e + sc * f + se) (sb * e + sd * f + sf)) this
                 in with_slice this1 (\<lambda>t.
                      let event = createCanvasEvent ''transform'' t
                            [(''a'', JNum a), (''b'', JNum b), (''c'', JNum c),
                             (''d'', JNum d), (''e'', JNum e), (''f'', JNum f)]
                      in ok (push_event event this1))))"

definition translate :: "extern \<Rightarrow> jsval list \<Rightarrow> ctx \<Rightarrow> outcome \<times> ctx" where
  "translate X as this =
     (if length as < 2 then
        throw (TypeError (required_but_only ''translate'' ''2 arguments'' (length as))) this
      else
        let xResult = to_number X (arrays this) (arg as 0);
            yResult = to_number X (arrays this) (arg as 1)
        in with_matrix this (\<lambda>r m.
             case m of Matrix a b c d e f \<Rightarrow>
               if is_finite (xResult + yResult) then
                 let this1 = set_matrix r
                       (Matrix a b c d (e + (a * xResult + c * yResult))
                                       (f + (b * xResult + d * yResult))) this
                 in with_slice this1 (\<lambda>t.
                      let event = createCanvasEvent ''translate'' t
                            [(''x'', JNum xResult), (''y'', JNum yResult)]
                      in ok (push_event event this1))
               else ok this))"

text \<open>The three inspection methods return copies of the logs and of the path.\<close>

definition getDrawCalls :: "jsval list \<Rightarrow> ctx \<Rightarrow> outcome \<times> ctx" where
  "getDrawCalls as this = returns (JArray (drawCalls this)) this"

definition getEvents :: "jsval list \<Rightarrow> ctx \<Rightarrow> outcome \<times> ctx" where
  "getEvents as this = returns (JArray (events this)) this"

definition getPath :: "jsval list \<Rightarrow> ctx \<Rightarrow> outcome \<times> ctx" where
  "getPath as this = returns (JArray (path this)) this"

section \<open>The accessors\<close>

text \<open>
  \<^verbatim>\<open>parseCSSColor\<close>: the \<^verbatim>\<open>rgba(...)\<close> form when the alpha is not 1, else the hex form,
  shortened to three digits when each pair repeats its digit, else \<^verbatim>\<open>undefined\<close>.
\<close>

definition char_at :: "string \<Rightarrow> nat \<Rightarrow> char option" where
  "char_at s i = (if i < length s then Some (s ! i) else None)"

definition show_char :: "char option \<Rightarrow> string" where
  "show_char ch = (case ch of None \<Rightarrow> ''undefined'' | Some x \<Rightarrow> [x])"

definition parseCSSColor :: "extern \<Rightarrow> (nat \<Rightarrow> jsval list) \<Rightarrow> string \<Rightarrow> string option" where
  "parseCSSColor X h v =
     (case parseColor X v of (rgba, hex) \<Rightarrow>
        (case (case rgba of None \<Rightarrow> None
                          | Some xs \<Rightarrow> if js_get xs 3 \<noteq> JNum (Fin 1) then Some xs else None) of
           Some xs \<Rightarrow> Some (''rgba('' @ js_join X h '', '' xs @ '')'')
         | None \<Rightarrow>
             (case hex of
                None \<Rightarrow> None
              | Some hx \<Rightarrow>
                  if hx = [] then None
                  else if char_at hx 1 = char_at hx 2 \<and> char_at hx 3 = char_at hx 4
                          \<and> char_at hx 5 = char_at hx 6 then
                    Some (''#'' @ show_char (char_at hx 1) @ show_char (char_at hx 3)
                            @ show_char (char_at hx 5))
                  else Some hx)))"

text \<open>
  A setter takes the assigned value and returns the state it leaves; it never raises on
  its value. A getter reads the state.
\<close>

definition set_currentTransform :: "jsval \<Rightarrow> ctx \<Rightarrow> outcome \<times> ctx" where
  "set_currentTransform v this =
     (case v of
        JDOMMatrix a b c d e f \<Rightarrow>
          with_matrix this (\<lambda>r m.
            let this1 = set_matrix r (Matrix a b c d e f) this
            in with_slice this1 (\<lambda>t.
                 let event = createCanvasEvent ''currentTransform'' t
                       [(''a'', JNum a), (''b'', JNum b), (''c'', JNum c),
                        (''d'', JNum d), (''e'', JNum e), (''f'', JNum f)]
                 in ok (push_event event this1)))
      | _ \<Rightarrow> ok this)"

definition get_currentTransform :: "ctx \<Rightarrow> jsval" where
  "get_currentTransform this = new_DOMMatrix this"

definition get_canvas :: "ctx \<Rightarrow> jsval" where
  "get_canvas this = canvas this"

definition set_direction :: "jsval \<Rightarrow> ctx \<Rightarrow> outcome \<times> ctx" where
  "set_direction v this =
     (if v = JStr ''rtl'' \<or> v = JStr ''ltr'' \<or> v = JStr ''inherit'' then
        let this1 = this\<lparr>directionStack := js_set (directionStack this) (stackIndex this) v\<rparr>
        in with_slice this1 (\<lambda>t.
             let event = createCanvasEvent ''direction'' t [(''value'', v)]
             in ok (push_event event this1))
      else ok this)"

definition get_direction :: "ctx \<Rightarrow> jsval" where
  "get_direction this = js_get (directionStack this) (stackIndex this)"

definition set_fillStyle :: "extern \<Rightarrow> jsval \<Rightarrow> ctx \<Rightarrow> outcome \<times> ctx" where
  "set_fillStyle X v this =
     (case v of
        JStr s \<Rightarrow>
          (case parseCSSColor X (arrays this) s of
             None \<Rightarrow> ok this
           | Some result \<Rightarrow>
               if result \<noteq> [] then
                 let this1 = this\<lparr>fillStyleStack := js_set (fillStyleStack this) (stackIndex this) (JStr result)\<rparr>
                 in with_slice this1 (\<lambda>t.
                      let event = createCanvasEvent ''fillStyle'' t [(''value'', JStr result)]
                      in ok (push_event event this1))
               else ok this)
      | JCanvasGradient \<Rightarrow>
          let this1 = this\<lparr>fillStyleStack := js_set (fillStyleStack this) (stackIndex this) v\<rparr>
          in with_slice this1 (\<lambda>t.
               let event = createCanvasEvent ''fillStyle'' t [(''value'', v)]
               in ok (push_event event this1))
      | JCanvasPattern \<Rightarrow>
          let this1 = this\<lparr>fillStyleStack := js_set (fillStyleStack this) (stackIndex this) v\<rparr>
          in with_slice this1 (\<lambda>t.
               let event = createCanvasEvent ''fillStyle'' t [(''value'', v)]
               in ok (push_event event this1))
      | _ \<Rightarrow> ok this)"

definition get_fillStyle :: "ctx \<Rightarrow> jsval" where
  "get_fillStyle this = js_get (fillStyleStack this) (stackIndex this)"

definition set_filter :: "jsval \<Rightarrow> ctx \<Rightarrow> outcome \<times> ctx" where
  "set_filter v this =
     (let v1 = (if v = JStr [] then JStr ''none'' else v);
          v2 = (if is_string v1 then v1 else JStr ''none'');
          this1 = this\<lparr>filterStack := js_set (filterStack this) (stackIndex this) v2\<rparr>
      in with_slice this1 (\<lambda>t.
           let event = createCanvasEvent ''filter'' t [(''value'', v2)]
           in ok (push_event event this1)))"

definition get_filter :: "ctx \<Rightarrow> jsval" where
  "get_filter this = js_get (filterStack this) (stackIndex this)"

text \<open>
  The body of the \<^verbatim>\<open>font\<close> setter is inside \<^verbatim>\<open>try { } catch (ex) {}\<close>: whatever raises
  in it, the call returns normally with the assignments made so far.
\<close>

definition set_font :: "extern \<Rightarrow> jsval \<Rightarrow> ctx \<Rightarrow> outcome \<times> ctx" where
  "set_font X v this =
     (case cssfontparser X v of
        None \<Rightarrow> ok this
      | Some result \<Rightarrow>
          let this1 = this\<lparr>fontStack := js_set (fontStack this) (stackIndex this) (JStr result)\<rparr>
          in (case getTransformSlice this1 of
                Inl ex \<Rightarrow> ok this1
              | Inr t \<Rightarrow>
                  let event = createCanvasEvent ''font'' t [(''value'', JStr result)]
                  in ok (push_event event this1)))"

definition get_font :: "ctx \<Rightarrow> jsval" where
  "get_font this = js_get (fontStack this) (stackIndex this)"

definition set_globalAlpha :: "extern \<Rightarrow> jsval \<Rightarrow> ctx \<Rightarrow> outcome \<times> ctx" where
  "set_globalAlpha X v this =
     (let val = to_number X (arrays this) v
      in if \<not> is_finite val then ok this
         else if val < Fin 0 then ok this
         else if Fin 1 < val then ok this
         else
           let this1 = this\<lparr>globalAlphaStack := js_set (globalAlphaStack this) (stackIndex this) (JNum val)\<rparr>
           in with_slice this1 (\<lambda>t.
                let event = createCanvasEvent ''globalAlpha'' t [(''value'', JNum val)]
                in ok (push_event event this1)))"

definition get_globalAlpha :: "ctx \<Rightarrow> jsval" where
  "get_globalAlpha this = js_get (globalAlphaStack this) (stackIndex this)"

definition compositeOperations :: "string list" where
  "compositeOperations =
     [''source-over'', ''source-in'', ''source-out'', ''source-atop'', ''destination-over'',
      ''destination-in'', ''destination-out'', ''destination-atop'', ''lighter'', ''copy'', ''xor'',
      ''multiply'', ''screen'', ''overlay'', ''darken'', ''lighten'', ''color-dodge'', ''color-burn'',
      ''hard-light'', ''soft-light'', ''difference'', ''exclusion'', ''hue'', ''saturation'', ''color'',
      ''luminosity'']"

definition set_globalCompositeOperation :: "jsval \<Rightarrow> ctx \<Rightarrow> outcome \<times> ctx" where
  "set_globalCompositeOperation v this =
     (if v \<in> set (map JStr compositeOperations) then
        let this1 = this\<lparr>globalCompositeOperationStack := js_set (globalCompositeOperationStack this) (stackIndex this) v\<rparr>
        in with_slice this1 (\<lambda>t.
             let event = createCanvasEvent ''globalCompositeOperation'' t [(''value'', v)]
             in ok (push_event event this1))
      else ok this)"

definition get_globalCompositeOperation :: "ctx \<Rightarrow> jsval" where
  "get_globalCompositeOperation this = js_get (globalCompositeOperationStack this) (stackIndex this)"

definition set_imageSmoothingEnabled :: "jsval \<Rightarrow> ctx \<Rightarrow> outcome \<times> ctx" where
  "set_imageSmoothingEnabled v this =
     (let v1 = JBool (truthy v);
          this1 = this\<lparr>imageSmoothingEnabledStack :=
                    js_set (imageSmoothingEnabledStack this) (stackIndex this) v1\<rparr>
      in with_slice this1 (\<lambda>t.
           let event = createCanvasEvent ''imageSmoothingEnabled'' t [(''value'', v1)]
           in ok (push_event event this1)))"

definition get_imageSmoothingEnabled :: "ctx \<Rightarrow> jsval" where
  "get_imageSmoothingEnabled this = js_get (imageSmoothingEnabledStack this) (stackIndex this)"

definition set_imageSmoothingQuality :: "jsval \<Rightarrow> ctx \<Rightarrow> outcome \<times> ctx" where
  "set_imageSmoothingQuality v this =
     (if v = JStr ''high'' \<or> v = JStr ''medium'' \<or> v = JStr ''low'' then
        let this1 = this\<lparr>imageSmoothingQualityStack := js_set (imageSmoothingQualityStack this) (stackIndex this) v\<rparr>
        in with_slice this1 (\<lambda>t.
             let event = createCanvasEvent ''imageSmoothingQuality'' t [(''value'', v)]
             in ok (push_event event this1))
      else ok this)"

definition get_imageSmoothingQuality :: "ctx \<Rightarrow> jsval" where
  "get_imageSmoothingQuality this = js_get (imageSmoothingQualityStack this) (stackIndex this)"

definition set_lineCap :: "jsval \<Rightarrow> ctx \<Rightarrow> outcome \<times> ctx" where
  "set_lineCap v this =
     (if v = JStr ''butt'' \<or> v = JStr ''round'' \<or> v = JStr ''square'' then
        let this1 = this\<lparr>lineCapStack := js_set (lineCapStack this) (stackIndex this) v\<rparr>
        in with_slice this1 (\<lambda>t.
             let event = createCanvasEvent ''lineCap'' t [(''value'', v)]
             in ok (push_event event this1))
      else ok this)"

definition get_lineCap :: "ctx \<Rightarrow> jsval" where
  "get_lineCap this = js_get (lineCapStack this) (stackIndex this)"

text \<open>The event of \<^verbatim>\<open>lineDashOffset\<close> carries the assigned value, not the number.\<close>

definition set_lineDashOffset :: "extern \<Rightarrow> jsval \<Rightarrow> ctx \<Rightarrow> outcome \<times> ctx" where
  "set_lineDashOffset X v this =
     (let result = to_number X (arrays this) v
      in if is_finite result then
           let this1 = this\<lparr>lineDashOffsetStack :=
                         js_set (lineDashOffsetStack this) (stackIndex this) (JNum result)\<rparr>
           in with_slice this1 (\<lambda>t.
                let event = createCanvasEvent ''lineDashOffset'' t [(''value'', v)]
                in ok (push_event event this1))
         else ok this)"

definition get_lineDashOffset :: "ctx \<Rightarrow> jsval" where
  "get_lineDashOffset this = js_get (lineDashOffsetStack this) (stackIndex this)"

definition set_lineJoin :: "jsval \<Rightarrow> ctx \<Rightarrow> outcome \<times> ctx" where
  "set_lineJoin v this =
     (if v = JStr ''round'' \<or> v = JStr ''bevel'' \<or> v = JStr ''miter'' then
        let this1 = this\<lparr>lineJoinStack := js_set (lineJoinStack this) (stackIndex this) v\<rparr>
        in with_slice this1 (\<lambda>t.
             let event = createCanvasEvent ''lineJoin'' t [(''value'', v)]
             in ok (push_event event this1))
      else ok this)"

definition get_lineJoin :: "ctx \<Rightarrow> jsval" where
  "get_lineJoin this = js_get (lineJoinStack this) (stackIndex this)"

definition set_lineWidth :: "extern \<Rightarrow> jsval \<Rightarrow> ctx \<Rightarrow> outcome \<times> ctx" where
  "set_lineWidth X v this =
     (let result = to_number X (arrays this) v
      in if is_finite result \<and> Fin 0 < result then
           let this1 = this\<lparr>lineWidthStack := js_set (lineWidthStack this) (stackIndex this) (JNum result)\<rparr>
           in with_slice this1 (\<lambda>t.
                let event = createCanvasEvent ''lineWidth'' t [(''value'', JNum result)]
                in ok (push_event event this1))
         else ok this)"

definition get_lineWidth :: "ctx \<Rightarrow> jsval" where
  "get_lineWidth this = js_get (lineWidthStack this) (stackIndex this)"

text \<open>The event of the \<^verbatim>\<open>miterLimit\<close> setter has the type \<^verbatim>\<open>lineWidth\<close>, as in the source.\<close>

definition set_miterLimit :: "extern \<Rightarrow> jsval \<Rightarrow> ctx \<Rightarrow> outcome \<times> ctx" where
  "set_miterLimit X v this =
     (let result = to_number X (arrays this) v
      in if is_finite result \<and> Fin 0 < result then
           let this1 = this\<lparr>miterLimitStack := js_set (miterLimitStack this) (stackIndex this) (JNum result)\<rparr>
           in with_slice this1 (\<lambda>t.
                let event = createCanvasEvent ''lineWidth'' t [(''value'', JNum result)]
                in ok (push_event event this1))
         else ok this)"

definition get_miterLimit :: "ctx \<Rightarrow> jsval" where
  "get_miterLimit this = js_get (miterLimitStack this) (stackIndex this)"

definition set_shadowBlur :: "extern \<Rightarrow> jsval \<Rightarrow> ctx \<Rightarrow> outcome \<times> ctx" where
  "set_shadowBlur X v this =
     (let result = to_number X (arrays this) v
      in if is_finite result \<and> Fin 0 < result then
           let this1 = this\<lparr>shadowBlurStack := js_set (shadowBlurStack this) (stackIndex this) (JNum result)\<rparr>
           in with_slice this1 (\<lambda>t.
                let event = createCanvasEvent ''shadowBlur'' t [(''value'', JNum result)]
                in ok (push_event event this1))
         else ok this)"

definition get_shadowBlur :: "ctx \<Rightarrow> jsval" where
  "get_shadowBlur this = js_get (shadowBlurStack this) (stackIndex this)"

definition set_shadowColor :: "extern \<Rightarrow> jsval \<Rightarrow> ctx \<Rightarrow> outcome \<times> ctx" where
  "set_shadowColor X v this =
     (case v of
        JStr s \<Rightarrow>
          (case parseCSSColor X (arrays this) s of
             None \<Rightarrow> ok this
           | Some result \<Rightarrow>
               if result \<noteq> [] then
                 let this1 = this\<lparr>shadowColorStack :=
                               js_set (shadowColorStack this) (stackIndex this) (JStr result)\<rparr>
                 in with_slice this1 (\<lambda>t.
                      let event = createCanvasEvent ''shadowColor'' t [(''value'', JStr result)]
                      in ok (push_event event this1))
               else ok this)
      | _ \<Rightarrow> ok this)"

definition get_shadowColor :: "ctx \<Rightarrow> jsval" where
  "get_shadowColor this = js_get (shadowColorStack this) (stackIndex this)"

definition set_shadowOffsetX :: "extern \<Rightarrow> jsval \<Rightarrow> ctx \<Rightarrow> outcome \<times> ctx" where
  "set_shadowOffsetX X v this =
     (let result = to_number X (arrays this) v
      in if is_finite result then
           let this1 = this\<lparr>shadowOffsetXStack := js_set (shadowOffsetXStack this) (stackIndex this) (JNum result)\<rparr>
           in with_slice this1 (\<lambda>t.
                let event = createCanvasEvent ''shadowOffsetX'' t [(''value'', JNum result)]
                in ok (push_event event this1))
         else ok this)"

definition get_shadowOffsetX :: "ctx \<Rightarrow> jsval" where
  "get_shadowOffsetX this = js_get (shadowOffsetXStack this) (stackIndex this)"

text \<open>The \<^verbatim>\<open>shadowOffsetY\<close> accessors assign and read \<^verbatim>\<open>_shadowOffsetXStack\<close>, as in the source.\<close>

definition set_shadowOffsetY :: "extern \<Rightarrow> jsval \<Rightarrow> ctx \<Rightarrow> outcome \<times> ctx" where
  "set_shadowOffsetY X v this =
     (let result = to_number X (arrays this) v
      in if is_finite result then
           let this1 = this\<lparr>shadowOffsetXStack := js_set (shadowOffsetXStack this) (stackIndex this) (JNum result)\<rparr>
           in with_slice this1 (\<lambda>t.
                let event = createCanvasEvent ''shadowOffsetY'' t [(''value'', JNum result)]
                in ok (push_event event this1))
         else ok this)"

definition get_shadowOffsetY :: "ctx \<Rightarrow> jsval" where
  "get_shadowOffsetY this = js_get (shadowOffsetXStack this) (stackIndex this)"

definition set_strokeStyle :: "extern \<Rightarrow> jsval \<Rightarrow> ctx \<Rightarrow> outcome \<times> ctx" where
  "set_strokeStyle X v this =
     (case v of
        JStr s \<Rightarrow>
          (case parseCSSColor X (arrays this) s of
             None \<Rightarrow> ok this
           | Some result \<Rightarrow>
               if result \<noteq> [] then
                 let this1 = this\<lparr>strokeStyleStack := js_set (strokeStyleStack this) (stackIndex this) (JStr result)\<rparr>
                 in with_slice this1 (\<lambda>t.
                      let event = createCanvasEvent ''strokeStyle'' t [(''value'', JStr result)]
                      in ok (push_event event this1))
               else ok this)
      | JCanvasGradient \<Rightarrow>
          let this1 = this\<lparr>strokeStyleStack := js_set (strokeStyleStack this) (stackIndex this) v\<rparr>
          in with_slice this1 (\<lambda>t.
               let event = createCanvasEvent ''strokeStyle'' t [(''value'', v)]
               in ok (push_event event this1))
      | JCanvasPattern \<Rightarrow>
          let this1 = this\<lparr>strokeStyleStack := js_set (strokeStyleStack this) (stackIndex this) v\<rparr>
          in with_slice this1 (\<lambda>t.
               let event = createCanvasEvent ''strokeStyle'' t [(''value'', v)]
               in ok (push_event event this1))
      | _ \<Rightarrow> ok this)"

definition get_strokeStyle :: "ctx \<Rightarrow> jsval" where
  "get_strokeStyle this = js_get (strokeStyleStack this) (stackIndex this)"

definition set_textAlign :: "jsval \<Rightarrow> ctx \<Rightarrow> outcome \<times> ctx" where
  "set_textAlign v this =
     (if v = JStr ''left'' \<or> v = JStr ''right'' \<or> v = JStr ''center'' \<or> v = JStr ''start'' \<or> v = JStr ''end'' then
        let this1 = this\<lparr>textAlignStack := js_set (textAlignStack this) (stackIndex this) v\<rparr>
        in with_slice this1 (\<lambda>t.
             let event = createCanvasEvent ''textAlign'' t [(''value'', v)]
             in ok (push_event event this1))
      else ok this)"

definition get_textAlign :: "ctx \<Rightarrow> jsval" where
  "get_textAlign this = js_get (textAlignStack this) (stackIndex this)"

definition set_textBaseline :: "jsval \<Rightarrow> ctx \<Rightarrow> outcome \<times> ctx" where
  "set_textBaseline v this =
     (if v = JStr ''top'' \<or> v = JStr ''hanging'' \<or> v = JStr ''middle'' \<or> v = JStr ''alphabetic'' \<or> v = JStr ''ideographic'' \<or> v = JStr ''bottom'' then
        let this1 = this\<lparr>textBaselineStack := js_set (textBaselineStack this) (stackIndex this) v\<rparr>
        in with_slice this1 (\<lambda>t.
             let event = createCanvasEvent ''textBaseline'' t [(''value'', v)]
             in ok (push_event event this1))
      else ok this)"

definition get_textBaseline :: "ctx \<Rightarrow> jsval" where
  "get_textBaseline this = js_get (textBaselineStack this) (stackIndex this)"

section \<open>Calls and reachable states\<close>

text \<open>The methods of the class; the last three are \<^verbatim>\<open>__getDrawCalls\<close>, \<^verbatim>\<open>__getEvents\<close>, \<^verbatim>\<open>__getPath\<close>.\<close>

datatype operation =
    M_addHitRegion
  | M_arc
  | M_arcTo
  | M_beginPath
  | M_bezierCurveTo
  | M_clearHitRegions
  | M_clearRect
  | M_clip
  | M_closePath
  | M_createImageData
  | M_createLinearGradient
  | M_createPattern
  | M_createRadialGradient
  | M_drawFocusIfNeeded
  | M_drawImage
  | M_ellipse
  | M_fill
  | M_fillRect
  | M_fillText
  | M_getImageData
  | M_getLineDash
  | M_getTransform
  | M_isPointInPath
  | M_isPointInStroke
  | M_lineTo
  | M_measureText
  | M_moveTo
  | M_putImageData
  | M_quadraticCurveTo
  | M_rect
  | M_removeHitRegion
  | M_resetTransform
  | M_restore
  | M_rotate
  | M_save
  | M_scale
  | M_scrollPathIntoView
  | M_setLineDash
  | M_setTransform
  | M_stroke
  | M_strokeRect
  | M_strokeText
  | M_transform
  | M_translate
  | M_getDrawCalls
  | M_getEvents
  | M_getPath

text \<open>The accessor properties of the class.\<close>

datatype attr =
    A_canvas
  | A_currentTransform
  | A_direction
  | A_fillStyle
  | A_filter
  | A_font
  | A_globalAlpha
  | A_globalCompositeOperation
  | A_imageSmoothingEnabled
  | A_imageSmoothingQuality
  | A_lineCap
  | A_lineDashOffset
  | A_lineJoin
  | A_lineWidth
  | A_miterLimit
  | A_shadowBlur
  | A_shadowColor
  | A_shadowOffsetX
  | A_shadowOffsetY
  | A_strokeStyle
  | A_textAlign
  | A_textBaseline

fun invoke :: "extern \<Rightarrow> operation \<Rightarrow> jsval list \<Rightarrow> ctx \<Rightarrow> outcome \<times> ctx" where
  "invoke X M_addHitRegion as this = addHitRegion X as this"
| "invoke X M_arc as this = arc X as this"
| "invoke X M_arcTo as this = arcTo X as this"
| "invoke X M_beginPath as this = beginPath as this"
| "invoke X M_bezierCurveTo as this = bezierCurveTo X as this"
| "invoke X M_clearHitRegions as this = clearHitRegions as this"
| "invoke X M_clearRect as this = clearRect X as this"
| "invoke X M_clip as this = clip X as this"
| "invoke X M_closePath as this = closePath as this"
| "invoke X M_createImageData as this = createImageData X as this"
| "invoke X M_createLinearGradient as this = createLinearGradient X as this"
| "invoke X M_createPattern as this = createPattern X as this"
| "invoke X M_createRadialGradient as this = createRadialGradient X as this"
| "invoke X M_drawFocusIfNeeded as this = drawFocusIfNeeded X as this"
| "invoke X M_drawImage as this = drawImage X as this"
| "invoke X M_ellipse as this = ellipse X as this"
| "invoke X M_fill as this = fill X as this"
| "invoke X M_fillRect as this = fillRect X as this"
| "invoke X M_fillText as this = fillText X as this"
| "invoke X M_getImageData as this = getImageData X as this"
| "invoke X M_getLineDash as this = getLineDash as this"
| "invoke X M_getTransform as this = getTransform as this"
| "invoke X M_isPointInPath as this = isPointInPath X as this"
| "invoke X M_isPointInStroke as this = isPointInStroke X as this"
| "invoke X M_lineTo as this = lineTo X as this"
| "invoke X M_measureText as this = measureText X as this"
| "invoke X M_moveTo as this = moveTo X as this"
| "invoke X M_putImageData as this = putImageData X as this"
| "invoke X M_quadraticCurveTo as this = quadraticCurveTo X as this"
| "invoke X M_rect as this = rect X as this"
| "invoke X M_removeHitRegion as this = removeHitRegion as this"
| "invoke X M_resetTransform as this = resetTransform as this"
| "invoke X M_restore as this = restore as this"
| "invoke X M_rotate as this = rotate_ctx X as this"
| "invoke X M_save as this = save as this"
| "invoke X M_scale as this = scale X as this"
| "invoke X M_scrollPathIntoView as this = scrollPathIntoView as this"
| "invoke X M_setLineDash as this = setLineDash X as this"
| "invoke X M_setTransform as this = setTransform X as this"
| "invoke X M_stroke as this = stroke as this"
| "invoke X M_strokeRect as this = strokeRect X as this"
| "invoke X M_strokeText as this = strokeText X as this"
| "invoke X M_transform as this = transform X as this"
| "invoke X M_translate as this = translate X as this"
| "invoke X M_getDrawCalls as this = getDrawCalls as this"
| "invoke X M_getEvents as this = getEvents as this"
| "invoke X M_getPath as this = getPath as this"

text \<open>
  Assignment to a property. \<^verbatim>\<open>canvas\<close> has a getter only: the assignment changes nothing
  (and raises in strict code).
\<close>

fun assign :: "extern \<Rightarrow> attr \<Rightarrow> jsval \<Rightarrow> ctx \<Rightarrow> outcome \<times> ctx" where
  "assign X A_canvas v this = throw (TypeError ''Cannot set property canvas which has only a getter'') this"
| "assign X A_currentTransform v this = set_currentTransform v this"
| "assign X A_direction v this = set_direction v this"
| "assign X A_fillStyle v this = set_fillStyle X v this"
| "assign X A_filter v this = set_filter v this"
| "assign X A_font v this = set_font X v this"
| "assign X A_globalAlpha v this = set_globalAlpha X v this"
| "assign X A_globalCompositeOperation v this = set_globalCompositeOperation v this"
| "assign X A_imageSmoothingEnabled v this = set_imageSmoothingEnabled v this"
| "assign X A_imageSmoothingQuality v this = set_imageSmoothingQuality v this"
| "assign X A_lineCap v this = set_lineCap v this"
| "assign X A_lineDashOffset v this = set_lineDashOffset X v this"
| "assign X A_lineJoin v this = set_lineJoin v this"
| "assign X A_lineWidth v this = set_lineWidth X v this"
| "assign X A_miterLimit v this = set_miterLimit X v this"
| "assign X A_shadowBlur v this = set_shadowBlur X v this"
| "assign X A_shadowColor v this = set_shadowColor X v this"
| "assign X A_shadowOffsetX v this = set_shadowOffsetX X v this"
| "assign X A_shadowOffsetY v this = set_shadowOffsetY X v this"
| "assign X A_strokeStyle v this = set_strokeStyle X v this"
| "assign X A_textAlign v this = set_textAlign v this"
| "assign X A_textBaseline v this = set_textBaseline v this"

fun read_attr :: "attr \<Rightarrow> ctx \<Rightarrow> jsval" where
  "read_attr A_canvas this = get_canvas this"
| "read_attr A_currentTransform this = get_currentTransform this"
| "read_attr A_direction this = get_direction this"
| "read_attr A_fillStyle this = get_fillStyle this"
| "read_attr A_filter this = get_filter this"
| "read_attr A_font this = get_font this"
| "read_attr A_globalAlpha this = get_globalAlpha this"
| "read_attr A_globalCompositeOperation this = get_globalCompositeOperation this"
| "read_attr A_imageSmoothingEnabled this = get_imageSmoothingEnabled this"
| "read_attr A_imageSmoothingQuality this = get_imageSmoothingQuality this"
| "read_attr A_lineCap this = get_lineCap this"
| "read_attr A_lineDashOffset this = get_lineDashOffset this"
| "read_attr A_lineJoin this = get_lineJoin this"
| "read_attr A_lineWidth this = get_lineWidth this"
| "read_attr A_miterLimit this = get_miterLimit this"
| "read_attr A_shadowBlur this = get_shadowBlur this"
| "read_attr A_shadowColor this = get_shadowColor this"
| "read_attr A_shadowOffsetX this = get_shadowOffsetX this"
| "read_attr A_shadowOffsetY this = get_shadowOffsetY this"
| "read_attr A_strokeStyle this = get_strokeStyle this"
| "read_attr A_textAlign this = get_textAlign this"
| "read_attr A_textBaseline this = get_textBaseline this"

text \<open>
  What a caller can do to a context: call a method, assign or read a property, and
  change the contents of an array it holds a reference to (the only references it can
  hold are those returned by \<^verbatim>\<open>getLineDash()\<close>, into \<open>arrays\<close>).
\<close>

datatype call =
    Invoke operation "jsval list"
  | Assign attr jsval
  | Read attr
  | Mutate nat "jsval list"

fun exec :: "extern \<Rightarrow> call \<Rightarrow> ctx \<Rightarrow> outcome \<times> ctx" where
  "exec X (Invoke m as) this = invoke X m as this"
| "exec X (Assign a v) this = assign X a v this"
| "exec X (Read a) this = returns (read_attr a this) this"
| "exec X (Mutate a xs) this = ok (this\<lparr>arrays := (arrays this)(a := xs)\<rparr>)"

text \<open>The states of a context: a new one, and what any call leaves, raising or not.\<close>

inductive reachable :: "extern \<Rightarrow> ctx \<Rightarrow> bool" for X :: extern where
  reachable_new: "reachable X (new_context cv)"
| reachable_exec: "reachable X c \<Longrightarrow> reachable X (snd (exec X k c))"

text \<open>Running a list of calls from a state, whatever each returns or raises.\<close>

fun run :: "extern \<Rightarrow> call list \<Rightarrow> ctx \<Rightarrow> ctx" where
  "run X [] this = this"
| "run X (k # ks) this = run X ks (snd (exec X k this))"

text \<open>The transform array of the current frame, as \<^verbatim>\<open>getTransformSlice\<close> copies it.\<close>

definition current_matrix :: "ctx \<Rightarrow> jsval list" where
  "current_matrix this = (case getTransformSlice this of Inl e \<Rightarrow> [] | Inr t \<Rightarrow> t)"

text \<open>The dash list of the current frame: the array that the stored reference points to.\<close>

definition current_dash :: "ctx \<Rightarrow> jsval list" where
  "current_dash this =
     (case js_get (lineDashStack this) (stackIndex this) of JRef a \<Rightarrow> arrays this a | _ \<Rightarrow> [])"

text \<open>
  An instance of the outside functions, to run the model on concrete inputs: strings of
  decimal digits are numbers, nothing is a colour or a font, and \<^verbatim>\<open>new ImageData\<close>
  raises a RangeError for a width or height that is zero or not a number and for a
  buffer of \<open>4 * width * height\<close> bytes that is longer than \<open>2 ^ 32\<close>.
\<close>

fun digits_value :: "string \<Rightarrow> nat \<Rightarrow> nat option" where
  "digits_value [] acc = Some acc"
| "digits_value (ch # s) acc =
     (if (48::nat) \<le> of_char ch \<and> (of_char ch :: nat) \<le> 57
      then digits_value s (10 * acc + ((of_char ch :: nat) - 48))
      else None)"

definition sample_ImageData :: "jsval \<Rightarrow> jsval \<Rightarrow> error + jsval" where
  "sample_ImageData w h =
     (case h of
        JNum (Fin b) \<Rightarrow>
          if b = 0 then Inl (RangeError ''The height is zero or not a number.'')
          else
            (case w of
               JNum (Fin a) \<Rightarrow>
                 if a = 0 then Inl (RangeError ''The width is zero or not a number.'')
                 else if 2 ^ 32 < 4 * \<bar>a\<bar> * \<bar>b\<bar> then Inl (RangeError ''Invalid typed array length'')
                 else Inr (JImageData w h)
             | _ \<Rightarrow> Inl (RangeError ''The width is zero or not a number.''))
      | _ \<Rightarrow> Inl (RangeError ''The height is zero or not a number.''))"

definition sample_extern :: extern where
  "sample_extern =
     \<lparr> string_to_number = (\<lambda>s. case digits_value s 0 of None \<Rightarrow> NaN | Some n \<Rightarrow> round_double (real n)),
       number_to_string = (\<lambda>n. ''number''),
       object_to_string = (\<lambda>h v. ''[object Object]''),
       cos_approx = (\<lambda>a. round_double (cos a)),
       sin_approx = (\<lambda>a. round_double (sin a)),
       parseColor = (\<lambda>s. (None, None)),
       cssfontparser = (\<lambda>v. None),
       new_ImageData = sample_ImageData \<rparr>"

section \<open>Properties of single calls\<close>

text \<open>
  In every state that a caller can reach, the transform stack has one entry per frame
  and none is \<^verbatim>\<open>undefined\<close>.
\<close>

definition frames_ok :: "ctx \<Rightarrow> bool" where
  "frames_ok c \<longleftrightarrow>
     length (transformStack c) = stackIndex c + 1 \<and> None \<notin> set (transformStack c)"

text \<open>
  What a call that does not paint does: it keeps the frames and the draw calls and
  appends at most one event. A call that paints appends the same record to both logs,
  or nothing to either.
\<close>

definition quiet_call :: "ctx \<Rightarrow> outcome \<times> ctx \<Rightarrow> bool" where
  "quiet_call c r \<longleftrightarrow>
     transformStack (snd r) = transformStack c \<and> stackIndex (snd r) = stackIndex c
     \<and> drawCalls (snd r) = drawCalls c
     \<and> (events (snd r) = events c \<or> (\<exists>e. events (snd r) = events c @ [e]))"

definition paint_call :: "ctx \<Rightarrow> outcome \<times> ctx \<Rightarrow> bool" where
  "paint_call c r \<longleftrightarrow>
     transformStack (snd r) = transformStack c \<and> stackIndex (snd r) = stackIndex c
     \<and> ((drawCalls (snd r) = drawCalls c \<and> events (snd r) = events c)
        \<or> (\<exists>e. drawCalls (snd r) = drawCalls c @ [e] \<and> events (snd r) = events c @ [e]))"

definition paint_methods :: "operation set" where
  "paint_methods =
     {M_fillRect, M_strokeRect, M_clearRect, M_fillText, M_strokeText, M_drawImage, M_fill, M_stroke}"

text \<open>The identity matrix, as a copy of a transform array.\<close>

definition identity_slice :: "jsval list" where
  "identity_slice =
     [JNum (Fin 1), JNum (Fin 0), JNum (Fin 0), JNum (Fin 1), JNum (Fin 0), JNum (Fin 0)]"

text \<open>A large double: twice it, and its square, are out of range.\<close>

definition huge :: real where
  "huge = 2 ^ 1023"



section \<open>Double arithmetic\<close>

lemma round_half_even_of_int [simp]: "round_half_even (of_int n) = n"
  by (simp add: round_half_even_def)

lemma double_exponent_le:
  assumes "m \<noteq> 0" and "\<bar>m\<bar> < 2 ^ 53" and "- 1074 \<le> k"
  shows "double_exponent (of_int m * 2 powi k) \<le> k"
proof -
  let ?x = "of_int m * 2 powi k :: real"
  have pos: "0 < \<bar>?x\<bar>"
    using assms(1) by simp
  have "\<bar>?x\<bar> = \<bar>of_int m\<bar> * 2 powi k"
    by (simp add: abs_mult)
  also have "\<dots> < 2 ^ 53 * 2 powi k"
  proof -
    have "\<bar>of_int m :: real\<bar> < 2 ^ 53"
      using assms(2) by (metis of_int_abs of_int_less_numeral_power_cancel_iff)
    then show ?thesis by simp
  qed
  also have "\<dots> = 2 powr (53 + of_int k)"
    by (simp add: powr_add powr_real_of_int' flip: powr_realpow)
  finally have "log 2 \<bar>?x\<bar> < 53 + of_int k"
    using pos by (simp add: log_less_iff)
  then have "\<lfloor>log 2 \<bar>?x\<bar>\<rfloor> < 53 + k"
    by linarith
  then show ?thesis
    using assms(3) by (simp add: double_exponent_def)
qed

lemma round_double_representable:
  assumes "m \<noteq> 0" and "\<bar>m\<bar> < 2 ^ 53" and "- 1074 \<le> k" and "k \<le> 971"
  shows "round_double (of_int m * 2 powi k) = Fin (of_int m * 2 powi k)"
proof -
  let ?x = "of_int m * 2 powi k :: real"
  define e where "e = double_exponent ?x"
  have e: "e \<le> k"
    unfolding e_def using assms(1,2,3) by (rule double_exponent_le)
  have q: "?x / 2 powi e = of_int (m * 2 ^ nat (k - e))"
  proof -
    have "?x / 2 powi e = of_int m * 2 powi (k - e)"
      by (simp add: power_int_diff)
    also have "\<dots> = of_int m * 2 ^ nat (k - e)"
      using e by (simp add: power_int_nonneg_exp)
    finally show ?thesis by simp
  qed
  have r: "of_int (round_half_even (?x / 2 powi e)) * 2 powi e = ?x"
  proof -
    have "(2::real) ^ nat (k - e) * 2 powi e = 2 powi (k - e) * 2 powi e"
      using e by (simp add: power_int_nonneg_exp)
    also have "\<dots> = 2 powi k"
      by (simp flip: power_int_add)
    finally have "of_int (m * 2 ^ nat (k - e)) * 2 powi e = ?x"
      by (simp add: mult.assoc)
    then show ?thesis
      unfolding q round_half_even_of_int .
  qed
  have nz: "?x \<noteq> 0"
    using assms(1) by simp
  have "\<bar>?x\<bar> = \<bar>of_int m\<bar> * 2 powi k"
    by (simp add: abs_mult)
  also have "\<dots> < 2 ^ 53 * 2 powi k"
  proof -
    have "\<bar>of_int m :: real\<bar> < 2 ^ 53"
      using assms(2) by (metis of_int_abs of_int_less_numeral_power_cancel_iff)
    then show ?thesis by simp
  qed
  also have "\<dots> \<le> 2 ^ 53 * 2 powi 971"
  proof -
    have "(2::real) powi k \<le> 2 powi 971"
      using assms(4) by (intro power_int_increasing) simp_all
    then show ?thesis
      by (intro mult_left_mono) simp_all
  qed
  also have "\<dots> = 2 ^ 1024"
    by (simp add: power_int_nonneg_exp flip: power_add)
  finally have small: "\<not> 2 ^ 1024 \<le> \<bar>?x\<bar>"
    by simp
  show ?thesis
    using nz small r by (simp add: round_double_def Let_def flip: e_def)
qed

lemma round_double_int:
  assumes "x \<in> \<int>" and "\<bar>x\<bar> < 2 ^ 53"
  shows "round_double x = Fin x"
proof (cases "x = 0")
  case True
  then show ?thesis by (simp add: round_double_def)
next
  case False
  from assms(1) obtain m where m: "x = of_int m"
    by (auto elim: Ints_cases)
  with False assms(2) have "m \<noteq> 0" and "\<bar>m\<bar> < 2 ^ 53"
    by (auto simp flip: of_int_abs)
  then have "round_double (of_int m * 2 powi 0) = Fin (of_int m * 2 powi 0)"
    by (rule round_double_representable) simp_all
  then show ?thesis
    using m by simp
qed

lemma round_double_overflow:
  assumes "2 ^ 1024 \<le> x"
  shows "round_double x = PInf"
proof -
  have pos: "0 < x"
    using assms by (rule less_le_trans [rotated]) simp
  define L where "L = \<lfloor>log 2 \<bar>x\<bar>\<rfloor>"
  have "2 powr 1024 \<le> x"
    using assms by simp
  then have "1024 \<le> log 2 x"
    using pos by (subst le_log_iff) simp_all
  then have L: "1024 \<le> L"
    using pos by (simp add: L_def le_floor_iff)
  have Lx: "2 powi L \<le> x"
  proof -
    have "of_int L \<le> log 2 x"
      using pos by (simp add: L_def)
    then have "2 powr (of_int L) \<le> x"
      using pos by (simp add: le_log_iff)
    then show ?thesis
      by (simp add: powr_real_of_int')
  qed
  have "\<bar>x\<bar> = x"
    using pos by simp
  then have "double_exponent x = max (L - 52) (- 1074)"
    by (simp add: double_exponent_def L_def)
  then have e: "double_exponent x = L - 52"
    using L by simp
  have "(2::real) ^ 52 = 2 powi L / 2 powi (L - 52)"
    by (simp add: power_int_diff power_int_nonneg_exp)
  also have "\<dots> \<le> x / 2 powi (L - 52)"
    using Lx by (simp add: divide_right_mono)
  finally have "(2::real) ^ 52 \<le> x / 2 powi (L - 52)" .
  then have "2 ^ 52 \<le> \<lfloor>x / 2 powi (L - 52)\<rfloor>"
    by (simp add: le_floor_iff)
  moreover have "\<lfloor>x / 2 powi (L - 52)\<rfloor> \<le> round_half_even (x / 2 powi (L - 52))"
    by (simp add: round_half_even_def Let_def)
  ultimately have m: "2 ^ 52 \<le> round_half_even (x / 2 powi (L - 52))"
    by linarith
  have "(2::real) powi 1024 \<le> 2 powi L"
    using L by (intro power_int_increasing) simp_all
  moreover have "(2::real) powi 1024 = 2 ^ 1024"
    by (simp add: power_int_nonneg_exp)
  ultimately have "(2::real) ^ 1024 \<le> 2 powi L"
    by simp
  also have "\<dots> = 2 ^ 52 * 2 powi (L - 52)"
    by (simp add: power_int_diff power_int_nonneg_exp)
  also have "\<dots> \<le> of_int (round_half_even (x / 2 powi (L - 52))) * 2 powi (L - 52)"
  proof -
    have "(2::real) ^ 52 \<le> of_int (round_half_even (x / 2 powi (L - 52)))"
      using m by (metis of_int_le_iff of_int_numeral of_int_power)
    then show ?thesis
      by (simp add: mult_right_mono)
  qed
  finally have "2 ^ 1024 \<le> \<bar>of_int (round_half_even (x / 2 powi (L - 52))) * 2 powi (L - 52) :: real\<bar>"
    by simp
  then show ?thesis
    using pos by (simp add: round_double_def e Let_def)
qed

text \<open>Small integers are doubles, and \<open>huge\<close> is one.\<close>

lemma round_double_huge: "round_double huge = Fin huge"
  unfolding huge_def
  using round_double_representable [of "2 ^ 52" 971]
  by (simp add: power_int_nonneg_exp flip: power_add)

lemma huge_positive: "0 < huge"
  by (simp add: huge_def)

lemma round_double_twice_huge: "round_double (2 * huge) = PInf"
  by (rule round_double_overflow) (simp add: huge_def)

lemma round_double_huge_squared: "round_double (huge * huge) = PInf"
  by (rule round_double_overflow) (simp add: huge_def)

lemma huge_facts: "huge \<noteq> 0" "\<not> huge < 0" "0 < huge"
  by (simp_all add: huge_def)

lemmas double_simps =
  round_double_int times_num_def round_double_huge round_double_twice_huge round_double_huge_squared
  huge_facts

section \<open>Single calls\<close>

lemma snd_ok [simp]: "snd (ok c) = c" "fst (ok c) = Inr JUndefined"
  by (simp_all add: ok_def)

lemma snd_throw [simp]: "snd (throw e c) = c" "fst (throw e c) = Inl e"
  by (simp_all add: throw_def)

lemma snd_returns [simp]: "snd (returns v c) = c" "fst (returns v c) = Inr v"
  by (simp_all add: returns_def)

lemmas call_defs = ok_def throw_def returns_def with_slice_def with_matrix_def getTransformSlice_def
  current_transform_def push_event_def push_drawCall_def push_path_def set_matrix_def Let_def

lemma frames_okD:
  assumes "frames_ok c"
  shows "stackIndex c < length (transformStack c) \<and> (\<exists>r. transformStack c ! stackIndex c = Some r)"
proof -
  have len: "stackIndex c < length (transformStack c)"
    using assms by (simp add: frames_ok_def)
  have "None \<notin> set (transformStack c)"
    using assms by (simp add: frames_ok_def)
  with len have "transformStack c ! stackIndex c \<noteq> None"
    by (metis nth_mem)
  with len show ?thesis
    by (cases "transformStack c ! stackIndex c") simp_all
qed

lemma addHitRegion_call:
  "stackIndex c < length (transformStack c) \<Longrightarrow> transformStack c ! stackIndex c = Some r
   \<Longrightarrow> quiet_call c (addHitRegion X as c)"
  by (simp add: quiet_call_def addHitRegion_def call_defs split: matrix.split jsval.split option.split)

lemma arc_call:
  "stackIndex c < length (transformStack c) \<Longrightarrow> transformStack c ! stackIndex c = Some r
   \<Longrightarrow> quiet_call c (arc X as c)"
  by (simp add: quiet_call_def arc_def call_defs split: matrix.split jsval.split option.split)

lemma arcTo_call:
  "stackIndex c < length (transformStack c) \<Longrightarrow> transformStack c ! stackIndex c = Some r
   \<Longrightarrow> quiet_call c (arcTo X as c)"
  by (simp add: quiet_call_def arcTo_def call_defs split: matrix.split jsval.split option.split)

lemma beginPath_call:
  "stackIndex c < length (transformStack c) \<Longrightarrow> transformStack c ! stackIndex c = Some r
   \<Longrightarrow> quiet_call c (beginPath as c)"
  by (simp add: quiet_call_def beginPath_def call_defs split: matrix.split jsval.split option.split)

lemma bezierCurveTo_call:
  "stackIndex c < length (transformStack c) \<Longrightarrow> transformStack c ! stackIndex c = Some r
   \<Longrightarrow> quiet_call c (bezierCurveTo X as c)"
  by (simp add: quiet_call_def bezierCurveTo_def call_defs split: matrix.split jsval.split option.split)

lemma clearHitRegions_call:
  "stackIndex c < length (transformStack c) \<Longrightarrow> transformStack c ! stackIndex c = Some r
   \<Longrightarrow> quiet_call c (clearHitRegions as c)"
  by (simp add: quiet_call_def clearHitRegions_def call_defs split: matrix.split jsval.split option.split)

lemma clearRect_call:
  "stackIndex c < length (transformStack c) \<Longrightarrow> transformStack c ! stackIndex c = Some r
   \<Longrightarrow> paint_call c (clearRect X as c)"
  by (simp add: paint_call_def clearRect_def call_defs split: matrix.split jsval.split option.split)

lemma clip_call:
  "stackIndex c < length (transformStack c) \<Longrightarrow> transformStack c ! stackIndex c = Some r
   \<Longrightarrow> quiet_call c (clip X as c)"
  by (simp add: quiet_call_def clip_def call_defs split: matrix.split jsval.split option.split)

lemma closePath_call:
  "stackIndex c < length (transformStack c) \<Longrightarrow> transformStack c ! stackIndex c = Some r
   \<Longrightarrow> quiet_call c (closePath as c)"
  by (simp add: quiet_call_def closePath_def call_defs split: matrix.split jsval.split option.split)

lemma createImageData_call:
  "stackIndex c < length (transformStack c) \<Longrightarrow> transformStack c ! stackIndex c = Some r
   \<Longrightarrow> quiet_call c (createImageData X as c)"
  by (simp add: quiet_call_def createImageData_def call_defs split: sum.split jsval.split)

lemma createLinearGradient_call:
  "stackIndex c < length (transformStack c) \<Longrightarrow> transformStack c ! stackIndex c = Some r
   \<Longrightarrow> quiet_call c (createLinearGradient X as c)"
  by (simp add: quiet_call_def createLinearGradient_def call_defs split: matrix.split jsval.split option.split)

lemma createPattern_call:
  "stackIndex c < length (transformStack c) \<Longrightarrow> transformStack c ! stackIndex c = Some r
   \<Longrightarrow> quiet_call c (createPattern X as c)"
  by (simp add: quiet_call_def createPattern_def call_defs split: matrix.split jsval.split option.split)

lemma createRadialGradient_call:
  "stackIndex c < length (transformStack c) \<Longrightarrow> transformStack c ! stackIndex c = Some r
   \<Longrightarrow> quiet_call c (createRadialGradient X as c)"
  by (simp add: quiet_call_def createRadialGradient_def call_defs split: matrix.split jsval.split option.split)

lemma drawFocusIfNeeded_call:
  "stackIndex c < length (transformStack c) \<Longrightarrow> transformStack c ! stackIndex c = Some r
   \<Longrightarrow> quiet_call c (drawFocusIfNeeded X as c)"
  by (simp add: quiet_call_def drawFocusIfNeeded_def call_defs split: matrix.split jsval.split option.split)

lemma drawImage_call:
  "stackIndex c < length (transformStack c) \<Longrightarrow> transformStack c ! stackIndex c = Some r
   \<Longrightarrow> paint_call c (drawImage X as c)"
  by (simp add: paint_call_def drawImage_def call_defs split: matrix.split jsval.split option.split)

lemma ellipse_call:
  "stackIndex c < length (transformStack c) \<Longrightarrow> transformStack c ! stackIndex c = Some r
   \<Longrightarrow> quiet_call c (ellipse X as c)"
  by (simp add: quiet_call_def ellipse_def call_defs split: matrix.split jsval.split option.split)

lemma fill_call:
  "stackIndex c < length (transformStack c) \<Longrightarrow> transformStack c ! stackIndex c = Some r
   \<Longrightarrow> paint_call c (fill X as c)"
  by (simp add: paint_call_def fill_def call_defs split: matrix.split jsval.split option.split)

lemma fillRect_call:
  "stackIndex c < length (transformStack c) \<Longrightarrow> transformStack c ! stackIndex c = Some r
   \<Longrightarrow> paint_call c (fillRect X as c)"
  by (simp add: paint_call_def fillRect_def call_defs split: matrix.split jsval.split option.split)

lemma fillText_call:
  "stackIndex c < length (transformStack c) \<Longrightarrow> transformStack c ! stackIndex c = Some r
   \<Longrightarrow> paint_call c (fillText X as c)"
  by (simp add: paint_call_def fillText_def call_defs split: matrix.split jsval.split option.split)

lemma getImageData_call:
  "stackIndex c < length (transformStack c) \<Longrightarrow> transformStack c ! stackIndex c = Some r
   \<Longrightarrow> quiet_call c (getImageData X as c)"
  by (simp add: quiet_call_def getImageData_def call_defs split: jsval.split sum.split)

lemma getLineDash_call:
  "stackIndex c < length (transformStack c) \<Longrightarrow> transformStack c ! stackIndex c = Some r
   \<Longrightarrow> quiet_call c (getLineDash as c)"
  by (simp add: quiet_call_def getLineDash_def call_defs split: matrix.split jsval.split option.split)

lemma getTransform_call:
  "stackIndex c < length (transformStack c) \<Longrightarrow> transformStack c ! stackIndex c = Some r
   \<Longrightarrow> quiet_call c (getTransform as c)"
  by (simp add: quiet_call_def getTransform_def call_defs split: matrix.split jsval.split option.split)

lemma isPointInPath_call:
  "stackIndex c < length (transformStack c) \<Longrightarrow> transformStack c ! stackIndex c = Some r
   \<Longrightarrow> quiet_call c (isPointInPath X as c)"
  by (simp add: quiet_call_def isPointInPath_def call_defs split: matrix.split jsval.split option.split)

lemma isPointInStroke_call:
  "stackIndex c < length (transformStack c) \<Longrightarrow> transformStack c ! stackIndex c = Some r
   \<Longrightarrow> quiet_call c (isPointInStroke X as c)"
  by (simp add: quiet_call_def isPointInStroke_def call_defs split: matrix.split jsval.split option.split)

lemma lineTo_call:
  "stackIndex c < length (transformStack c) \<Longrightarrow> transformStack c ! stackIndex c = Some r
   \<Longrightarrow> quiet_call c (lineTo X as c)"
  by (simp add: quiet_call_def lineTo_def call_defs split: matrix.split jsval.split option.split)

lemma measureText_call:
  "stackIndex c < length (transformStack c) \<Longrightarrow> transformStack c ! stackIndex c = Some r
   \<Longrightarrow> quiet_call c (measureText X as c)"
  by (simp add: quiet_call_def measureText_def call_defs split: matrix.split jsval.split option.split)

lemma moveTo_call:
  "stackIndex c < length (transformStack c) \<Longrightarrow> transformStack c ! stackIndex c = Some r
   \<Longrightarrow> quiet_call c (moveTo X as c)"
  by (simp add: quiet_call_def moveTo_def call_defs split: matrix.split jsval.split option.split)

lemma putImageData_call:
  "stackIndex c < length (transformStack c) \<Longrightarrow> transformStack c ! stackIndex c = Some r
   \<Longrightarrow> quiet_call c (putImageData X as c)"
  by (simp add: quiet_call_def putImageData_def call_defs split: matrix.split jsval.split option.split)

lemma quadraticCurveTo_call:
  "stackIndex c < length (transformStack c) \<Longrightarrow> transformStack c ! stackIndex c = Some r
   \<Longrightarrow> quiet_call c (quadraticCurveTo X as c)"
  by (simp add: quiet_call_def quadraticCurveTo_def call_defs split: matrix.split jsval.split option.split)

lemma rect_call:
  "stackIndex c < length (transformStack c) \<Longrightarrow> transformStack c ! stackIndex c = Some r
   \<Longrightarrow> quiet_call c (rect X as c)"
  by (simp add: quiet_call_def rect_def call_defs split: matrix.split jsval.split option.split)

lemma removeHitRegion_call:
  "stackIndex c < length (transformStack c) \<Longrightarrow> transformStack c ! stackIndex c = Some r
   \<Longrightarrow> quiet_call c (removeHitRegion as c)"
  by (simp add: quiet_call_def removeHitRegion_def call_defs split: matrix.split jsval.split option.split)

lemma resetTransform_call:
  "stackIndex c < length (transformStack c) \<Longrightarrow> transformStack c ! stackIndex c = Some r
   \<Longrightarrow> quiet_call c (resetTransform as c)"
  by (simp add: quiet_call_def resetTransform_def call_defs split: matrix.split jsval.split option.split)

lemma rotate_ctx_call:
  "stackIndex c < length (transformStack c) \<Longrightarrow> transformStack c ! stackIndex c = Some r
   \<Longrightarrow> quiet_call c (rotate_ctx X as c)"
  by (simp add: quiet_call_def rotate_ctx_def call_defs split: matrix.split jsval.split option.split)

lemma scale_call:
  "stackIndex c < length (transformStack c) \<Longrightarrow> transformStack c ! stackIndex c = Some r
   \<Longrightarrow> quiet_call c (scale X as c)"
  by (simp add: quiet_call_def scale_def call_defs split: matrix.split jsval.split option.split)

lemma scrollPathIntoView_call:
  "stackIndex c < length (transformStack c) \<Longrightarrow> transformStack c ! stackIndex c = Some r
   \<Longrightarrow> quiet_call c (scrollPathIntoView as c)"
  by (simp add: quiet_call_def scrollPathIntoView_def call_defs split: matrix.split jsval.split option.split)

lemma setLineDash_call:
  "stackIndex c < length (transformStack c) \<Longrightarrow> transformStack c ! stackIndex c = Some r
   \<Longrightarrow> quiet_call c (setLineDash X as c)"
  by (simp add: quiet_call_def setLineDash_def call_defs split: matrix.split jsval.split option.split)

lemma setTransform_call:
  "stackIndex c < length (transformStack c) \<Longrightarrow> transformStack c ! stackIndex c = Some r
   \<Longrightarrow> quiet_call c (setTransform X as c)"
  by (simp add: quiet_call_def setTransform_def call_defs split: matrix.split jsval.split option.split)

lemma stroke_call:
  "stackIndex c < length (transformStack c) \<Longrightarrow> transformStack c ! stackIndex c = Some r
   \<Longrightarrow> paint_call c (stroke as c)"
  by (simp add: paint_call_def stroke_def call_defs split: matrix.split jsval.split option.split)

lemma strokeRect_call:
  "stackIndex c < length (transformStack c) \<Longrightarrow> transformStack c ! stackIndex c = Some r
   \<Longrightarrow> paint_call c (strokeRect X as c)"
  by (simp add: paint_call_def strokeRect_def call_defs split: matrix.split jsval.split option.split)

lemma strokeText_call:
  "stackIndex c < length (transformStack c) \<Longrightarrow> transformStack c ! stackIndex c = Some r
   \<Longrightarrow> paint_call c (strokeText X as c)"
  by (simp add: paint_call_def strokeText_def call_defs split: matrix.split jsval.split option.split)

lemma transform_call:
  "stackIndex c < length (transformStack c) \<Longrightarrow> transformStack c ! stackIndex c = Some r
   \<Longrightarrow> quiet_call c (transform X as c)"
  by (simp add: quiet_call_def transform_def call_defs split: matrix.split jsval.split option.split)

lemma translate_call:
  "stackIndex c < length (transformStack c) \<Longrightarrow> transformStack c ! stackIndex c = Some r
   \<Longrightarrow> quiet_call c (translate X as c)"
  by (simp add: quiet_call_def translate_def call_defs split: matrix.split jsval.split option.split)

lemma getDrawCalls_call:
  "stackIndex c < length (transformStack c) \<Longrightarrow> transformStack c ! stackIndex c = Some r
   \<Longrightarrow> quiet_call c (getDrawCalls as c)"
  by (simp add: quiet_call_def getDrawCalls_def call_defs split: matrix.split jsval.split option.split)

lemma getEvents_call:
  "stackIndex c < length (transformStack c) \<Longrightarrow> transformStack c ! stackIndex c = Some r
   \<Longrightarrow> quiet_call c (getEvents as c)"
  by (simp add: quiet_call_def getEvents_def call_defs split: matrix.split jsval.split option.split)

lemma getPath_call:
  "stackIndex c < length (transformStack c) \<Longrightarrow> transformStack c ! stackIndex c = Some r
   \<Longrightarrow> quiet_call c (getPath as c)"
  by (simp add: quiet_call_def getPath_def call_defs split: matrix.split jsval.split option.split)

lemma set_currentTransform_call:
  "stackIndex c < length (transformStack c) \<Longrightarrow> transformStack c ! stackIndex c = Some r
   \<Longrightarrow> quiet_call c (set_currentTransform v c)"
  by (simp add: quiet_call_def set_currentTransform_def call_defs split: matrix.split jsval.split option.split)

lemma set_direction_call:
  "stackIndex c < length (transformStack c) \<Longrightarrow> transformStack c ! stackIndex c = Some r
   \<Longrightarrow> quiet_call c (set_direction v c)"
  by (simp add: quiet_call_def set_direction_def call_defs split: matrix.split jsval.split option.split)

lemma set_fillStyle_call:
  "stackIndex c < length (transformStack c) \<Longrightarrow> transformStack c ! stackIndex c = Some r
   \<Longrightarrow> quiet_call c (set_fillStyle X v c)"
  by (simp add: quiet_call_def set_fillStyle_def call_defs split: matrix.split jsval.split option.split)

lemma set_filter_call:
  "stackIndex c < length (transformStack c) \<Longrightarrow> transformStack c ! stackIndex c = Some r
   \<Longrightarrow> quiet_call c (set_filter v c)"
  by (simp add: quiet_call_def set_filter_def call_defs split: matrix.split jsval.split option.split)

lemma set_font_call:
  "stackIndex c < length (transformStack c) \<Longrightarrow> transformStack c ! stackIndex c = Some r
   \<Longrightarrow> quiet_call c (set_font X v c)"
  by (simp add: quiet_call_def set_font_def call_defs split: matrix.split jsval.split option.split)

lemma set_globalAlpha_call:
  "stackIndex c < length (transformStack c) \<Longrightarrow> transformStack c ! stackIndex c = Some r
   \<Longrightarrow> quiet_call c (set_globalAlpha X v c)"
  by (simp add: quiet_call_def set_globalAlpha_def call_defs split: matrix.split jsval.split option.split)

lemma set_globalCompositeOperation_call:
  "stackIndex c < length (transformStack c) \<Longrightarrow> transformStack c ! stackIndex c = Some r
   \<Longrightarrow> quiet_call c (set_globalCompositeOperation v c)"
  by (simp add: quiet_call_def set_globalCompositeOperation_def call_defs split: matrix.split jsval.split option.split)

lemma set_imageSmoothingEnabled_call:
  "stackIndex c < length (transformStack c) \<Longrightarrow> transformStack c ! stackIndex c = Some r
   \<Longrightarrow> quiet_call c (set_imageSmoothingEnabled v c)"
  by (simp add: quiet_call_def set_imageSmoothingEnabled_def call_defs split: matrix.split jsval.split option.split)

lemma set_imageSmoothingQuality_call:
  "stackIndex c < length (transformStack c) \<Longrightarrow> transformStack c ! stackIndex c = Some r
   \<Longrightarrow> quiet_call c (set_imageSmoothingQuality v c)"
  by (simp add: quiet_call_def set_imageSmoothingQuality_def call_defs split: matrix.split jsval.split option.split)

lemma set_lineCap_call:
  "stackIndex c < length (transformStack c) \<Longrightarrow> transformStack c ! stackIndex c = Some r
   \<Longrightarrow> quiet_call c (set_lineCap v c)"
  by (simp add: quiet_call_def set_lineCap_def call_defs split: matrix.split jsval.split option.split)

lemma set_lineDashOffset_call:
  "stackIndex c < length (transformStack c) \<Longrightarrow> transformStack c ! stackIndex c = Some r
   \<Longrightarrow> quiet_call c (set_lineDashOffset X v c)"
  by (simp add: quiet_call_def set_lineDashOffset_def call_defs split: matrix.split jsval.split option.split)

lemma set_lineJoin_call:
  "stackIndex c < length (transformStack c) \<Longrightarrow> transformStack c ! stackIndex c = Some r
   \<Longrightarrow> quiet_call c (set_lineJoin v c)"
  by (simp add: quiet_call_def set_lineJoin_def call_defs split: matrix.split jsval.split option.split)

lemma set_lineWidth_call:
  "stackIndex c < length (transformStack c) \<Longrightarrow> transformStack c ! stackIndex c = Some r
   \<Longrightarrow> quiet_call c (set_lineWidth X v c)"
  by (simp add: quiet_call_def set_lineWidth_def call_defs split: matrix.split jsval.split option.split)

lemma set_miterLimit_call:
  "stackIndex c < length (transformStack c) \<Longrightarrow> transformStack c ! stackIndex c = Some r
   \<Longrightarrow> quiet_call c (set_miterLimit X v c)"
  by (simp add: quiet_call_def set_miterLimit_def call_defs split: matrix.split jsval.split option.split)

lemma set_shadowBlur_call:
  "stackIndex c < length (transformStack c) \<Longrightarrow> transformStack c ! stackIndex c = Some r
   \<Longrightarrow> quiet_call c (set_shadowBlur X v c)"
  by (simp add: quiet_call_def set_shadowBlur_def call_defs split: matrix.split jsval.split option.split)

lemma set_shadowColor_call:
  "stackIndex c < length (transformStack c) \<Longrightarrow> transformStack c ! stackIndex c = Some r
   \<Longrightarrow> quiet_call c (set_shadowColor X v c)"
  by (simp add: quiet_call_def set_shadowColor_def call_defs split: matrix.split jsval.split option.split)

lemma set_shadowOffsetX_call:
  "stackIndex c < length (transformStack c) \<Longrightarrow> transformStack c ! stackIndex c = Some r
   \<Longrightarrow> quiet_call c (set_shadowOffsetX X v c)"
  by (simp add: quiet_call_def set_shadowOffsetX_def call_defs split: matrix.split jsval.split option.split)

lemma set_shadowOffsetY_call:
  "stackIndex c < length (transformStack c) \<Longrightarrow> transformStack c ! stackIndex c = Some r
   \<Longrightarrow> quiet_call c (set_shadowOffsetY X v c)"
  by (simp add: quiet_call_def set_shadowOffsetY_def call_defs split: matrix.split jsval.split option.split)

lemma set_strokeStyle_call:
  "stackIndex c < length (transformStack c) \<Longrightarrow> transformStack c ! stackIndex c = Some r
   \<Longrightarrow> quiet_call c (set_strokeStyle X v c)"
  by (simp add: quiet_call_def set_strokeStyle_def call_defs split: matrix.split jsval.split option.split)

lemma set_textAlign_call:
  "stackIndex c < length (transformStack c) \<Longrightarrow> transformStack c ! stackIndex c = Some r
   \<Longrightarrow> quiet_call c (set_textAlign v c)"
  by (simp add: quiet_call_def set_textAlign_def call_defs split: matrix.split jsval.split option.split)

lemma set_textBaseline_call:
  "stackIndex c < length (transformStack c) \<Longrightarrow> transformStack c ! stackIndex c = Some r
   \<Longrightarrow> quiet_call c (set_textBaseline v c)"
  by (simp add: quiet_call_def set_textBaseline_def call_defs split: matrix.split jsval.split option.split)

lemmas method_calls =
  addHitRegion_call arc_call arcTo_call beginPath_call bezierCurveTo_call
  clearHitRegions_call clearRect_call clip_call closePath_call createImageData_call
  createLinearGradient_call createPattern_call createRadialGradient_call drawFocusIfNeeded_call drawImage_call
  ellipse_call fill_call fillRect_call fillText_call getImageData_call
  getLineDash_call getTransform_call isPointInPath_call isPointInStroke_call lineTo_call
  measureText_call moveTo_call putImageData_call quadraticCurveTo_call rect_call
  removeHitRegion_call resetTransform_call rotate_ctx_call scale_call scrollPathIntoView_call
  setLineDash_call setTransform_call stroke_call strokeRect_call strokeText_call
  transform_call translate_call getDrawCalls_call getEvents_call getPath_call

lemmas setter_calls =
  set_currentTransform_call set_direction_call set_fillStyle_call set_filter_call
  set_font_call set_globalAlpha_call set_globalCompositeOperation_call set_imageSmoothingEnabled_call
  set_imageSmoothingQuality_call set_lineCap_call set_lineDashOffset_call set_lineJoin_call
  set_lineWidth_call set_miterLimit_call set_shadowBlur_call set_shadowColor_call
  set_shadowOffsetX_call set_shadowOffsetY_call set_strokeStyle_call set_textAlign_call
  set_textBaseline_call

lemma invoke_call:
  assumes "frames_ok c" and "m \<noteq> M_save" and "m \<noteq> M_restore"
  shows "if m \<in> paint_methods then paint_call c (invoke X m as c) else quiet_call c (invoke X m as c)"
proof -
  from frames_okD [OF assms(1)] obtain r
    where 1: "stackIndex c < length (transformStack c)" and 2: "transformStack c ! stackIndex c = Some r"
    by blast
  show ?thesis
    using assms(2,3) by (cases m) (simp_all add: paint_methods_def method_calls [OF 1 2])
qed

lemma assign_call:
  assumes "frames_ok c"
  shows "quiet_call c (assign X a v c)"
proof -
  from frames_okD [OF assms] obtain r
    where 1: "stackIndex c < length (transformStack c)" and 2: "transformStack c ! stackIndex c = Some r"
    by blast
  show ?thesis
    by (cases a) (simp_all add: setter_calls [OF 1 2], simp add: quiet_call_def)
qed

section \<open>Invariants of the reachable states\<close>

lemma current_matrix_ok:
  "stackIndex c < length (transformStack c) \<Longrightarrow> transformStack c ! stackIndex c = Some r
   \<Longrightarrow> current_matrix c = slice_matrix (matrices c r)"
  by (simp add: current_matrix_def getTransformSlice_def current_transform_def)

lemma save_frames:
  assumes "frames_ok c"
  shows "frames_ok (snd (save as c))"
    and "fst (save as c) = Inr JUndefined"
    and "drawCalls (snd (save as c)) = drawCalls c"
    and "events (snd (save as c)) = events c @ [JEvent ''save'' (current_matrix c) []]"
proof -
  from frames_okD [OF assms] obtain r
    where 1: "stackIndex c < length (transformStack c)" and 2: "transformStack c ! stackIndex c = Some r"
    by blast
  have 3: "length (transformStack c) = Suc (stackIndex c)" and 4: "None \<notin> set (transformStack c)"
    using assms by (simp_all add: frames_ok_def)
  show "frames_ok (snd (save as c))"
    using 1 2 3 4 by (simp add: save_def call_defs frames_ok_def nth_append)
  show "fst (save as c) = Inr JUndefined"
    using 1 2 3 by (simp add: save_def call_defs nth_append)
  show "drawCalls (snd (save as c)) = drawCalls c"
    using 1 2 3 by (simp add: save_def call_defs nth_append)
  show "events (snd (save as c)) = events c @ [JEvent ''save'' (current_matrix c) []]"
    using 1 2 3 by (simp add: save_def call_defs nth_append current_matrix_ok createCanvasEvent_def)
qed

lemma restore_at_zero: "stackIndex c = 0 \<Longrightarrow> restore as c = (Inr JUndefined, c)"
  by (simp add: restore_def ok_def)

lemma restore_frames:
  assumes "frames_ok c"
  shows "frames_ok (snd (restore as c))
         \<and> fst (restore as c) = Inr JUndefined
         \<and> drawCalls (snd (restore as c)) = drawCalls c
         \<and> (events (snd (restore as c)) = events c
              \<or> (\<exists>e. events (snd (restore as c)) = events c @ [e]))"
proof (cases "stackIndex c = 0")
  case True
  then show ?thesis
    using assms by (simp add: restore_at_zero)
next
  case False
  have 3: "length (transformStack c) = Suc (stackIndex c)" and 4: "None \<notin> set (transformStack c)"
    using assms by (simp_all add: frames_ok_def)
  have 6: "None \<notin> set (butlast (transformStack c))"
    using 4 by (auto dest: in_set_butlastD)
  have "stackIndex c - Suc 0 < length (butlast (transformStack c))"
    using False 3 by simp
  then have "butlast (transformStack c) ! (stackIndex c - Suc 0) \<in> set (butlast (transformStack c))"
    by (rule nth_mem)
  with 6 obtain r where 5: "butlast (transformStack c) ! (stackIndex c - Suc 0) = Some r"
    by (cases "butlast (transformStack c) ! (stackIndex c - Suc 0)") auto
  show ?thesis
    using False 3 5 6 by (simp add: restore_def call_defs frames_ok_def)
qed

lemma save_restore_state:
  assumes "frames_ok c"
  shows "snd (restore bs (snd (save as c)))
         = c\<lparr>events := events c @ [JEvent ''save'' (current_matrix c) [], JEvent ''restore'' (current_matrix c) []]\<rparr>"
proof -
  from frames_okD [OF assms] obtain r
    where 1: "stackIndex c < length (transformStack c)" and 2: "transformStack c ! stackIndex c = Some r"
    by blast
  have 3: "length (transformStack c) = Suc (stackIndex c)"
    using assms by (simp add: frames_ok_def)
  show ?thesis
    using 1 2 3 by (simp add: save_def restore_def call_defs nth_append current_matrix_ok createCanvasEvent_def)
qed


lemma paint_call_frames: "paint_call c r \<Longrightarrow> frames_ok c \<Longrightarrow> frames_ok (snd r)"
  by (simp add: paint_call_def frames_ok_def)

lemma quiet_call_frames: "quiet_call c r \<Longrightarrow> frames_ok c \<Longrightarrow> frames_ok (snd r)"
  by (simp add: quiet_call_def frames_ok_def)

lemma invoke_frames:
  assumes "frames_ok c"
  shows "frames_ok (snd (invoke X m as c))"
proof (cases "m = M_save \<or> m = M_restore")
  case True
  then show ?thesis
    using save_frames(1) [OF assms, of as] restore_frames [OF assms, of as] by auto
next
  case False
  with invoke_call [OF assms, of m X as] show ?thesis
    using assms by (auto split: if_splits dest: paint_call_frames quiet_call_frames)
qed

lemma exec_frames:
  assumes "frames_ok c"
  shows "frames_ok (snd (exec X k c))"
proof (cases k)
  case (Invoke m as)
  then show ?thesis using invoke_frames [OF assms] by simp
next
  case (Assign a v)
  then show ?thesis using quiet_call_frames [OF assign_call [OF assms] assms] by simp
next
  case (Read a)
  then show ?thesis using assms by simp
next
  case (Mutate a xs)
  then show ?thesis using assms by (simp add: frames_ok_def)
qed

lemma new_context_frames: "frames_ok (new_context cv)"
  by (simp add: frames_ok_def new_context_def)

lemma reachable_frames_ok: "reachable X c \<Longrightarrow> frames_ok c"
  by (induction rule: reachable.induct) (simp_all add: new_context_frames exec_frames)

text \<open>One call and the two logs.\<close>

lemma invoke_logs:
  assumes "frames_ok c"
  shows "(drawCalls (snd (invoke X m as c)) = drawCalls c
            \<and> (events (snd (invoke X m as c)) = events c
                 \<or> (\<exists>e. events (snd (invoke X m as c)) = events c @ [e])))
         \<or> (m \<in> paint_methods
              \<and> (\<exists>e. drawCalls (snd (invoke X m as c)) = drawCalls c @ [e]
                       \<and> events (snd (invoke X m as c)) = events c @ [e]))"
proof (cases "m = M_save \<or> m = M_restore")
  case True
  then show ?thesis
    using save_frames(3,4) [OF assms, of as] restore_frames [OF assms, of as] by auto
next
  case False
  with invoke_call [OF assms, of m X as] show ?thesis
    by (auto simp: paint_call_def quiet_call_def split: if_splits)
qed

lemma exec_logs:
  assumes "frames_ok c"
  shows "(drawCalls (snd (exec X k c)) = drawCalls c
            \<and> (events (snd (exec X k c)) = events c
                 \<or> (\<exists>e. events (snd (exec X k c)) = events c @ [e])))
         \<or> (\<exists>m as e. k = Invoke m as \<and> m \<in> paint_methods
               \<and> drawCalls (snd (exec X k c)) = drawCalls c @ [e]
               \<and> events (snd (exec X k c)) = events c @ [e])"
proof (cases k)
  case (Invoke m as)
  then show ?thesis using invoke_logs [OF assms, of X m as] by auto
next
  case (Assign a v)
  then show ?thesis using assign_call [OF assms, of X a v] by (auto simp: quiet_call_def)
next
  case (Read a)
  then show ?thesis by simp
next
  case (Mutate a xs)
  then show ?thesis by simp
qed

lemma exec_subseq:
  assumes "frames_ok c" and "subseq (drawCalls c) (events c)"
  shows "subseq (drawCalls (snd (exec X k c))) (events (snd (exec X k c)))"
  using exec_logs [OF assms(1), of X k] assms(2)
  by (auto simp: subseq_append' intro: subseq_order.order_trans)

lemma reachable_subseq: "reachable X c \<Longrightarrow> subseq (drawCalls c) (events c)"
proof (induction rule: reachable.induct)
  case (reachable_new cv)
  show ?case by (simp add: new_context_def)
next
  case (reachable_exec c k)
  then show ?case by (simp add: exec_subseq reachable_frames_ok)
qed

lemma js_get_js_set [simp]: "js_get (js_set xs i v) i = v"
  by (simp add: js_get_def js_set_def nth_append)

lemma js_add_nums [simp]: "js_add X h (JNum a) (JNum b) = JNum (a + b)"
  by (simp add: js_add_def to_primitive_def)

lemma js_add_string_left [simp]: "js_add X h (JStr s) (JStr t) = JStr (s @ t)"
  by (simp add: js_add_def to_primitive_def)

lemma read_attr_events [simp]: "read_attr a (c\<lparr>events := es\<rparr>) = read_attr a c"
  by (cases a)
     (simp_all add: get_canvas_def get_currentTransform_def new_DOMMatrix_def current_transform_def
        get_direction_def get_fillStyle_def get_filter_def get_font_def get_globalAlpha_def
        get_globalCompositeOperation_def get_imageSmoothingEnabled_def get_imageSmoothingQuality_def
        get_lineCap_def get_lineDashOffset_def get_lineJoin_def get_lineWidth_def get_miterLimit_def
        get_shadowBlur_def get_shadowColor_def get_shadowOffsetX_def get_shadowOffsetY_def
        get_strokeStyle_def get_textAlign_def get_textBaseline_def split: option.split)

lemma current_matrix_new [simp]: "current_matrix (new_context cv) = identity_slice"
  by (simp add: current_matrix_def getTransformSlice_def current_transform_def new_context_def identity_slice_def)

lemma paint_methods_paint:
  assumes "frames_ok c" and "m \<in> paint_methods"
  shows "\<exists>as e. drawCalls (snd (invoke X m as c)) = drawCalls c @ [e]
               \<and> events (snd (invoke X m as c)) = events c @ [e]"
proof -
  from frames_okD [OF assms(1)] obtain r
    where 1: "stackIndex c < length (transformStack c)" and 2: "transformStack c ! stackIndex c = Some r"
    by blast
  let ?box = "[JNum (Fin 0), JNum (Fin 0), JNum (Fin 1), JNum (Fin 1)]"
  let ?txt = "[JStr [], JNum (Fin 0), JNum (Fin 0)]"
  let ?img = "[JHTMLImageElement (JNum (Fin 1)) (JNum (Fin 1)), JNum (Fin 0), JNum (Fin 0)]"
  have "\<exists>e. drawCalls (snd (fillRect X ?box c)) = drawCalls c @ [e]
            \<and> events (snd (fillRect X ?box c)) = events c @ [e]"
    using 1 2 by (simp add: fillRect_def call_defs arg_def js_get_def double_simps)
  moreover have "\<exists>e. drawCalls (snd (strokeRect X ?box c)) = drawCalls c @ [e]
            \<and> events (snd (strokeRect X ?box c)) = events c @ [e]"
    using 1 2 by (simp add: strokeRect_def call_defs arg_def js_get_def double_simps)
  moreover have "\<exists>e. drawCalls (snd (clearRect X ?box c)) = drawCalls c @ [e]
            \<and> events (snd (clearRect X ?box c)) = events c @ [e]"
    using 1 2 by (simp add: clearRect_def call_defs arg_def js_get_def double_simps)
  moreover have "\<exists>e. drawCalls (snd (fillText X ?txt c)) = drawCalls c @ [e]
            \<and> events (snd (fillText X ?txt c)) = events c @ [e]"
    using 1 2 by (simp add: fillText_def call_defs arg_def js_get_def double_simps)
  moreover have "\<exists>e. drawCalls (snd (strokeText X ?txt c)) = drawCalls c @ [e]
            \<and> events (snd (strokeText X ?txt c)) = events c @ [e]"
    using 1 2 by (simp add: strokeText_def call_defs arg_def js_get_def double_simps)
  moreover have "\<exists>e. drawCalls (snd (drawImage X ?img c)) = drawCalls c @ [e]
            \<and> events (snd (drawImage X ?img c)) = events c @ [e]"
    using 1 2 by (simp add: drawImage_def call_defs arg_def js_get_def double_simps)
  moreover have "\<exists>e. drawCalls (snd (fill X [] c)) = drawCalls c @ [e]
            \<and> events (snd (fill X [] c)) = events c @ [e]"
    using 1 2 by (simp add: fill_def call_defs)
  moreover have "\<exists>e. drawCalls (snd (stroke [] c)) = drawCalls c @ [e]
            \<and> events (snd (stroke [] c)) = events c @ [e]"
    using 1 2 by (simp add: stroke_def call_defs)
  ultimately show ?thesis
    using assms(2) unfolding paint_methods_def
    by (elim insertE emptyE) (simp_all, blast+)
qed

lemma current_matrix_cases:
  assumes "frames_ok s"
  obtains r where "stackIndex s < length (transformStack s)"
    and "transformStack s ! stackIndex s = Some r"
    and "current_matrix s = slice_matrix (matrices s r)"
  using frames_okD [OF assms] current_matrix_ok by blast











section \<open>The claims\<close>

text \<open>
  Claim C1 (stack symmetry). In every reachable state, \<^verbatim>\<open>save()\<close> followed at once by
  \<^verbatim>\<open>restore()\<close> leaves the state as it was but for the two events appended, so every
  attribute reads as before the \<^verbatim>\<open>save()\<close>: fill and stroke style, font, line width, dash,
  shadow attributes, global alpha, composite operation, text attributes and the
  transform. At depth zero \<^verbatim>\<open>restore()\<close> returns normally and leaves the state, and so the
  event log, untouched.
\<close>
theorem stack_symmetry:
  assumes "reachable X c"
  shows "snd (restore bs (snd (save as c)))
           = c\<lparr>events := events c @ [JEvent ''save'' (current_matrix c) [],
                                      JEvent ''restore'' (current_matrix c) []]\<rparr>
         \<and> read_attr a (snd (restore bs (snd (save as c)))) = read_attr a c
         \<and> (stackIndex c = 0 \<longrightarrow> restore bs c = (Inr JUndefined, c))"
  using save_restore_state [OF reachable_frames_ok [OF assms], of bs as]
  by (simp add: restore_at_zero)

theorem stack_symmetry_witness:
  "stackIndex (new_context JNull) = 0
   \<and> snd (restore [] (snd (save [] (new_context JNull))))
       = (new_context JNull)\<lparr>events := [JEvent ''save'' identity_slice [], JEvent ''restore'' identity_slice []]\<rparr>
   \<and> read_attr A_lineWidth (snd (restore [] (snd (save [] (new_context JNull))))) = JNum (Fin 1)
   \<and> restore [] (new_context JNull) = (Inr JUndefined, new_context JNull)"
proof -
  have r: "reachable sample_extern (new_context JNull)"
    by (rule reachable_new)
  have z: "stackIndex (new_context JNull) = 0" and e: "events (new_context JNull) = []"
    by (simp_all add: new_context_def)
  have w: "read_attr A_lineWidth (new_context JNull) = JNum (Fin 1)"
    by (simp add: get_lineWidth_def new_context_def js_get_def)
  from stack_symmetry [OF r, of "[]" "[]" A_lineWidth] z e w show ?thesis
    by simp
qed




text \<open>
  Claim C3 (events and draw calls). In every reachable state the draw-call log is a
  subsequence of the event log: each of its records is in the event log, in the same
  order. A call either leaves the draw-call log as it is, or it is one of \<^verbatim>\<open>fillRect\<close>,
  \<^verbatim>\<open>strokeRect\<close>, \<^verbatim>\<open>clearRect\<close>, \<^verbatim>\<open>fillText\<close>, \<^verbatim>\<open>strokeText\<close>, \<^verbatim>\<open>drawImage\<close>, \<^verbatim>\<open>fill\<close>, \<^verbatim>\<open>stroke\<close>
  and appends one and the same record to both logs; and each of these eight does so for
  some arguments.
\<close>
theorem drawCalls_subsequence_of_events:
  assumes "reachable X c"
  shows "subseq (drawCalls c) (events c)
         \<and> (drawCalls (snd (exec X k c)) = drawCalls c
              \<or> (\<exists>m as e. k = Invoke m as
                    \<and> m \<in> {M_fillRect, M_strokeRect, M_clearRect, M_fillText, M_strokeText,
                            M_drawImage, M_fill, M_stroke}
                    \<and> drawCalls (snd (exec X k c)) = drawCalls c @ [e]
                    \<and> events (snd (exec X k c)) = events c @ [e]))
         \<and> (\<forall>m \<in> {M_fillRect, M_strokeRect, M_clearRect, M_fillText, M_strokeText,
                      M_drawImage, M_fill, M_stroke}.
               \<exists>as e. drawCalls (snd (exec X (Invoke m as) c)) = drawCalls c @ [e]
                     \<and> events (snd (exec X (Invoke m as) c)) = events c @ [e])"
proof -
  have ok: "frames_ok c"
    using assms by (rule reachable_frames_ok)
  have "subseq (drawCalls c) (events c)"
    using assms by (rule reachable_subseq)
  moreover have "drawCalls (snd (exec X k c)) = drawCalls c
              \<or> (\<exists>m as e. k = Invoke m as
                    \<and> m \<in> {M_fillRect, M_strokeRect, M_clearRect, M_fillText, M_strokeText,
                            M_drawImage, M_fill, M_stroke}
                    \<and> drawCalls (snd (exec X k c)) = drawCalls c @ [e]
                    \<and> events (snd (exec X k c)) = events c @ [e])"
    using exec_logs [OF ok, of X k] unfolding paint_methods_def by blast
  moreover have "\<forall>m \<in> {M_fillRect, M_strokeRect, M_clearRect, M_fillText, M_strokeText,
                      M_drawImage, M_fill, M_stroke}.
               \<exists>as e. drawCalls (snd (exec X (Invoke m as) c)) = drawCalls c @ [e]
                     \<and> events (snd (exec X (Invoke m as) c)) = events c @ [e]"
    using paint_methods_paint [OF ok, of _ X] unfolding paint_methods_def by simp
  ultimately show ?thesis by blast
qed

theorem drawCalls_subsequence_of_events_witness:
  "subseq (drawCalls (run sample_extern [Invoke M_save [], Invoke M_fill []] (new_context JNull)))
          (events (run sample_extern [Invoke M_save [], Invoke M_fill []] (new_context JNull)))
   \<and> drawCalls (snd (exec sample_extern (Invoke M_save []) (new_context JNull))) = []
   \<and> (\<exists>as e. drawCalls (snd (exec sample_extern (Invoke M_fill as) (new_context JNull))) = [e])"
proof -
  have r0: "reachable sample_extern (new_context JNull)"
    by (rule reachable_new)
  have r2: "reachable sample_extern (run sample_extern [Invoke M_save [], Invoke M_fill []] (new_context JNull))"
    using reachable_exec [OF reachable_exec [OF r0, of "Invoke M_save []"], of "Invoke M_fill []"]
    by simp
  have d: "drawCalls (new_context JNull) = []"
    by (simp add: new_context_def)
  have m: "M_fill \<in> {M_fillRect, M_strokeRect, M_clearRect, M_fillText, M_strokeText,
                      M_drawImage, M_fill, M_stroke}"
    by simp
  have "subseq (drawCalls (run sample_extern [Invoke M_save [], Invoke M_fill []] (new_context JNull)))
          (events (run sample_extern [Invoke M_save [], Invoke M_fill []] (new_context JNull)))"
    using drawCalls_subsequence_of_events [OF r2] by blast
  moreover have "drawCalls (snd (exec sample_extern (Invoke M_save []) (new_context JNull))) = []"
    using drawCalls_subsequence_of_events [OF r0, of "Invoke M_save []"] d by auto
  moreover have "\<exists>as e. drawCalls (snd (exec sample_extern (Invoke M_fill as) (new_context JNull))) = [e]"
    using drawCalls_subsequence_of_events [OF r0] m d by (metis append_Nil)
  ultimately show ?thesis by blast
qed

text \<open>
  Claim C4 (numeric coercion), evaluated on the code. \<^verbatim>\<open>rect\<close>, \<^verbatim>\<open>fillRect\<close>, \<^verbatim>\<open>clearRect\<close>
  and \<^verbatim>\<open>moveTo\<close> apply \<^verbatim>\<open>Number.isFinite\<close> to the sum of the arguments as passed, not of
  the coerced numbers: called with the numeric strings \<^verbatim>\<open>'1', '2', '3', '4'\<close>, which coerce to
  the finite numbers 1, 2, 3, 4, they return without an event and leave the state as it
  was, whereas \<^verbatim>\<open>strokeRect\<close>, which tests the coerced numbers, appends its event.
\<close>
theorem numeric_strings_are_ignored:
  "rect X [JStr ''1'', JStr ''2'', JStr ''3'', JStr ''4''] s = (Inr JUndefined, s)
   \<and> fillRect X [JStr ''1'', JStr ''2'', JStr ''3'', JStr ''4''] s = (Inr JUndefined, s)
   \<and> clearRect X [JStr ''1'', JStr ''2'', JStr ''3'', JStr ''4''] s = (Inr JUndefined, s)
   \<and> moveTo X [JStr ''1'', JStr ''2''] s = (Inr JUndefined, s)
   \<and> to_number sample_extern (arrays s) (JStr ''1'') = Fin 1
   \<and> to_number sample_extern (arrays s) (JStr ''2'') = Fin 2
   \<and> to_number sample_extern (arrays s) (JStr ''3'') = Fin 3
   \<and> to_number sample_extern (arrays s) (JStr ''4'') = Fin 4
   \<and> events (snd (strokeRect sample_extern [JStr ''1'', JStr ''2'', JStr ''3'', JStr ''4''] (new_context cv)))
       = [JEvent ''strokeRect'' identity_slice
            [(''x'', JNum (Fin 1)), (''y'', JNum (Fin 2)), (''width'', JNum (Fin 3)), (''height'', JNum (Fin 4))]]"
  by (simp add: rect_def fillRect_def clearRect_def moveTo_def strokeRect_def call_defs arg_def js_get_def
        sample_extern_def new_context_def identity_slice_def createCanvasEvent_def double_simps)

text \<open>
  Claim C5 (dash list), evaluated on the code. After \<^verbatim>\<open>setLineDash([1, 2, 3])\<close> on a new
  context the dash list is \<open>[1, 2, 3, 1, 2, 3]\<close>, but \<^verbatim>\<open>getLineDash()\<close> returns the very
  reference that the context stores, not a copy: when the caller then changes the
  array it was given, the dash list of the context changes with it.
\<close>
theorem getLineDash_returns_live_array:
  "current_dash (snd (setLineDash X [JArray [JNum (Fin 1), JNum (Fin 2), JNum (Fin 3)]] (new_context cv)))
     = [JNum (Fin 1), JNum (Fin 2), JNum (Fin 3), JNum (Fin 1), JNum (Fin 2), JNum (Fin 3)]
   \<and> fst (getLineDash [] (snd (setLineDash X [JArray [JNum (Fin 1), JNum (Fin 2), JNum (Fin 3)]]
                                  (new_context cv))))
     = Inr (JRef 1)
   \<and> lineDashStack (snd (setLineDash X [JArray [JNum (Fin 1), JNum (Fin 2), JNum (Fin 3)]] (new_context cv)))
     = [JRef 1]
   \<and> current_dash (run X [Invoke M_setLineDash [JArray [JNum (Fin 1), JNum (Fin 2), JNum (Fin 3)]],
                          Invoke M_getLineDash [],
                          Mutate 1 [JNum (Fin 9)]] (new_context cv))
     = [JNum (Fin 9)]"
  by (simp add: setLineDash_def getLineDash_def as_sequence_def current_dash_def call_defs arg_def js_get_def
        js_set_def new_context_def less_eq_num_def num_eq_def)

text \<open>
  Claim C6 (the \<^verbatim>\<open>shadowOffsetY\<close> accessors use the X stack). After the assignment
  \<^verbatim>\<open>shadowOffsetY = v\<close> of a finite number, in any state, both \<^verbatim>\<open>shadowOffsetY\<close> and
  \<^verbatim>\<open>shadowOffsetX\<close> read \<open>v\<close>, the Y stack is as it was, and the X stack holds \<open>v\<close> in the
  current frame.
\<close>
theorem shadowOffsetY_aliases_shadowOffsetX:
  "read_attr A_shadowOffsetY (snd (exec X (Assign A_shadowOffsetY (JNum (Fin v))) c)) = JNum (Fin v)
   \<and> read_attr A_shadowOffsetX (snd (exec X (Assign A_shadowOffsetY (JNum (Fin v))) c)) = JNum (Fin v)
   \<and> shadowOffsetYStack (snd (exec X (Assign A_shadowOffsetY (JNum (Fin v))) c)) = shadowOffsetYStack c
   \<and> shadowOffsetXStack (snd (exec X (Assign A_shadowOffsetY (JNum (Fin v))) c))
       = js_set (shadowOffsetXStack c) (stackIndex c) (JNum (Fin v))"
  by (simp add: set_shadowOffsetY_def get_shadowOffsetY_def get_shadowOffsetX_def call_defs
        split: sum.split option.split)

theorem shadowOffsetY_aliases_shadowOffsetX_witness:
  "read_attr A_shadowOffsetY
     (snd (exec sample_extern (Assign A_shadowOffsetY (JNum (Fin 5))) (new_context JNull))) = JNum (Fin 5)
   \<and> read_attr A_shadowOffsetX
     (snd (exec sample_extern (Assign A_shadowOffsetY (JNum (Fin 5))) (new_context JNull))) = JNum (Fin 5)
   \<and> shadowOffsetYStack
     (snd (exec sample_extern (Assign A_shadowOffsetY (JNum (Fin 5))) (new_context JNull))) = [JNum (Fin 0)]"
proof -
  have y: "shadowOffsetYStack (new_context JNull) = [JNum (Fin 0)]"
    by (simp add: new_context_def)
  from shadowOffsetY_aliases_shadowOffsetX [of sample_extern 5 "new_context JNull"] y
  show ?thesis
    by simp
qed

text \<open>
  Claim C7 (raised failures are atomic), evaluated on the code. With two arguments
  \<^verbatim>\<open>createImageData\<close> pushes its event and only then evaluates
  \<^verbatim>\<open>new ImageData(width, height)\<close>: in a reachable state, when that constructor raises,
  the call raises with the event already appended to the event log.
\<close>

theorem createImageData_raises_after_event:
  assumes "reachable X s" and "w \<noteq> 0" and "h \<noteq> 0"
    and "new_ImageData X (JNum (Fin \<bar>w\<bar>)) (JNum (Fin \<bar>h\<bar>)) = Inl ex"
  shows "exec X (Invoke M_createImageData [JNum (Fin w), JNum (Fin h)]) s
           = (Inl ex,
              s\<lparr>events := events s @ [JEvent ''createImageData'' (current_matrix s)
                   [(''width'', JNum (Fin \<bar>w\<bar>)), (''height'', JNum (Fin \<bar>h\<bar>))]]\<rparr>)"
proof -
  have "frames_ok s"
    using assms(1) by (rule reachable_frames_ok)
  then obtain r where 1: "stackIndex s < length (transformStack s)"
    and 2: "transformStack s ! stackIndex s = Some r"
    and 3: "current_matrix s = slice_matrix (matrices s r)"
    by (rule current_matrix_cases)
  show ?thesis
    using 1 2 assms(2,3,4)
    by (simp add: 3 createImageData_def call_defs arg_def js_get_def createCanvasEvent_def)
qed

theorem createImageData_raises_after_event_witness:
  "exec sample_extern (Invoke M_createImageData [JNum (Fin (10 ^ 10)), JNum (Fin (10 ^ 10))])
     (new_context JNull)
     = (Inl (RangeError ''Invalid typed array length''),
        (new_context JNull)\<lparr>events := [JEvent ''createImageData'' identity_slice
             [(''width'', JNum (Fin (10 ^ 10))), (''height'', JNum (Fin (10 ^ 10)))]]\<rparr>)
   \<and> events (new_context JNull) = []"
proof -
  have r: "reachable sample_extern (new_context JNull)"
    by (rule reachable_new)
  have n: "(10 ^ 10 :: real) \<noteq> 0"
    by simp
  have x: "new_ImageData sample_extern (JNum (Fin \<bar>10 ^ 10\<bar>)) (JNum (Fin \<bar>10 ^ 10\<bar>))
             = Inl (RangeError ''Invalid typed array length'')"
    by (simp add: sample_extern_def sample_ImageData_def)
  have e: "events (new_context JNull) = []"
    by (simp add: new_context_def)
  from createImageData_raises_after_event [OF r n n x] e show ?thesis
    by simp
qed




text \<open>
  Claim C9 (path round trip). On a new context, \<^verbatim>\<open>beginPath(); rect(0, 0, 10, 10); stroke()\<close>
  leaves a path of exactly two segments, the \<^verbatim>\<open>beginPath\<close> record and the \<^verbatim>\<open>rect\<close> record,
  and a draw-call log of exactly one record, the \<^verbatim>\<open>stroke\<close>, which carries a copy of that
  path.
\<close>
theorem path_round_trip:
  "path (run X [Invoke M_beginPath [],
                Invoke M_rect [JNum (Fin 0), JNum (Fin 0), JNum (Fin 10), JNum (Fin 10)],
                Invoke M_stroke []] (new_context cv))
     = [JEvent ''beginPath'' identity_slice [],
        JEvent ''rect'' identity_slice
          [(''x'', JNum (Fin 0)), (''y'', JNum (Fin 0)), (''width'', JNum (Fin 10)), (''height'', JNum (Fin 10))]]
   \<and> drawCalls (run X [Invoke M_beginPath [],
                Invoke M_rect [JNum (Fin 0), JNum (Fin 0), JNum (Fin 10), JNum (Fin 10)],
                Invoke M_stroke []] (new_context cv))
     = [JEvent ''stroke'' identity_slice
          [(''path'', JArray
             [JEvent ''beginPath'' identity_slice [],
              JEvent ''rect'' identity_slice
                [(''x'', JNum (Fin 0)), (''y'', JNum (Fin 0)), (''width'', JNum (Fin 10)), (''height'', JNum (Fin 10))]])]]"
  by (simp add: new_context_def beginPath_def rect_def stroke_def call_defs createCanvasEvent_def
        arg_def js_get_def identity_slice_def double_simps)

text \<open>
  Claim C10 (the event of \<^verbatim>\<open>miterLimit\<close>). In a reachable state, the assignment
  \<^verbatim>\<open>miterLimit = v\<close> of a finite \<open>v > 0\<close> stores \<open>v\<close> in the current frame of the miter-limit
  stack, so that \<^verbatim>\<open>miterLimit\<close> reads \<open>v\<close>, and appends an event of type \<^verbatim>\<open>lineWidth\<close>: the
  event log is the one that \<^verbatim>\<open>lineWidth = v\<close> leaves.
\<close>
theorem miterLimit_event_type:
  assumes "reachable X s" and "0 < v"
  shows "exec X (Assign A_miterLimit (JNum (Fin v))) s
           = (Inr JUndefined,
              s\<lparr>miterLimitStack := js_set (miterLimitStack s) (stackIndex s) (JNum (Fin v)),
                events := events s @ [JEvent ''lineWidth'' (current_matrix s) [(''value'', JNum (Fin v))]]\<rparr>)
         \<and> read_attr A_miterLimit (snd (exec X (Assign A_miterLimit (JNum (Fin v))) s)) = JNum (Fin v)
         \<and> events (snd (exec X (Assign A_miterLimit (JNum (Fin v))) s))
             = events (snd (exec X (Assign A_lineWidth (JNum (Fin v))) s))"
proof -
  have "frames_ok s"
    using assms(1) by (rule reachable_frames_ok)
  then obtain r where 1: "stackIndex s < length (transformStack s)"
    and 2: "transformStack s ! stackIndex s = Some r"
    and 3: "current_matrix s = slice_matrix (matrices s r)"
    by (rule current_matrix_cases)
  show ?thesis
    using 1 2 assms(2)
    by (simp add: 3 set_miterLimit_def set_lineWidth_def get_miterLimit_def call_defs createCanvasEvent_def)
qed

theorem miterLimit_event_type_witness:
  "events (snd (exec sample_extern (Assign A_miterLimit (JNum (Fin 4))) (new_context JNull)))
     = [JEvent ''lineWidth'' identity_slice [(''value'', JNum (Fin 4))]]
   \<and> read_attr A_miterLimit (snd (exec sample_extern (Assign A_miterLimit (JNum (Fin 4))) (new_context JNull)))
     = JNum (Fin 4)
   \<and> read_attr A_lineWidth (snd (exec sample_extern (Assign A_miterLimit (JNum (Fin 4))) (new_context JNull)))
     = JNum (Fin 1)"
proof -
  have r: "reachable sample_extern (new_context JNull)"
    by (rule reachable_new)
  have v: "(0::real) < 4"
    by simp
  have e: "events (new_context JNull) = []"
    and w: "lineWidthStack (new_context JNull) = [JNum (Fin 1)]"
    and i: "stackIndex (new_context JNull) = 0"
    by (simp_all add: new_context_def)
  have g: "js_get [JNum (Fin 1)] 0 = JNum (Fin 1)"
    by (simp add: js_get_def)
  have t: "exec sample_extern (Assign A_miterLimit (JNum (Fin 4))) (new_context JNull)
           = (Inr JUndefined,
              (new_context JNull)
                \<lparr>miterLimitStack := js_set (miterLimitStack (new_context JNull))
                                       (stackIndex (new_context JNull)) (JNum (Fin 4)),
                 events := events (new_context JNull)
                             @ [JEvent ''lineWidth'' (current_matrix (new_context JNull))
                                  [(''value'', JNum (Fin 4))]]\<rparr>)"
    using miterLimit_event_type [OF r v] by blast
  show ?thesis
    unfolding t by (simp add: e w i g get_lineWidth_def get_miterLimit_def)
qed

end
